theory Spec2Isabelle
  imports Main "HOL-Library.Word"
begin

section \<open>Values shared by the handlers\<close>

text \<open>
  A Go \<open>error\<close> value. The handlers of \<open>http.go\<close> only test an error against \<open>nil\<close>
  and pass it on, so an error is kept as the package it comes from and its text.
  A \<open>(value, error)\<close> result of Go is a pair whose second component is \<open>None\<close> for
  \<open>nil\<close>; a result that is either a value or an error is a sum, \<open>Inl\<close> the error.
\<close>

datatype error =
    ErrSyntax string   \<comment> \<open>\<open>strconv.NumError\<close> with \<open>Err = ErrSyntax\<close>, for the input text\<close>
  | ErrRange string    \<comment> \<open>\<open>strconv.NumError\<close> with \<open>Err = ErrRange\<close>, for the input text\<close>
  | AddrError string string  \<comment> \<open>\<open>net.AddrError\<close>: reason and address\<close>
  | Errorf string      \<comment> \<open>the result of \<open>fmt.Errorf\<close>, already formatted\<close>
  | OtherError string  \<comment> \<open>an error of a collaborator\<close>

text \<open>A run-time panic: a call through a nil function value, or \<open>panic(err)\<close>.\<close>

datatype panic = NilFuncCall | PanicErr error

type_synonym byte = "8 word"

text \<open>\<open>net.IP\<close> is a byte slice.\<close>

type_synonym IP = "byte list"

definition jsonMediaType :: string where
  "jsonMediaType = ''application/json''"

definition textMediaType :: string where
  "textMediaType = ''text/plain''"

section \<open>Standard library functions the handlers call\<close>

subsection \<open>\<open>fmt\<close>: the verb \<open>%d\<close> on an unsigned integer\<close>

definition digits :: string where
  "digits = ''0123456789''"

fun fmt_d :: "nat \<Rightarrow> string" where
  "fmt_d n = (if n < 10 then [digits ! n]
              else fmt_d (n div 10) @ [digits ! (n mod 10)])"

declare fmt_d.simps [simp del]

subsection \<open>\<open>strconv.ParseUint\<close> in base 10\<close>

text \<open>
  \<open>strconv.ParseUint(s, 10, bitSize)\<close>. The accumulator \<open>n\<close> is a \<open>uint64\<close>; it is a
  natural number here and the wrap-around of \<open>n + d\<close> is written out. In base 10 a
  sign, a letter, an underscore and every other byte that is not a decimal digit is a
  syntax error, reported with the value 0; a value that does not fit \<open>bitSize\<close> bits is a
  range error, reported with the largest value of that size (as the documentation of
  \<open>ParseUint\<close> has it), as soon as the prefix read so far is too large.
\<close>

definition maxUint64 :: nat where
  "maxUint64 = 2 ^ 64 - 1"

definition cutoff10 :: nat where
  "cutoff10 = maxUint64 div 10 + 1"

definition isDigit :: "char \<Rightarrow> bool" where
  "isDigit c \<longleftrightarrow> 48 \<le> (of_char c :: nat) \<and> (of_char c :: nat) \<le> 57"

definition digitValue :: "char \<Rightarrow> nat" where
  "digitValue c = of_char c - 48"

fun ParseUint_loop :: "string \<Rightarrow> nat \<Rightarrow> nat \<Rightarrow> string \<Rightarrow> nat \<times> error option" where
  "ParseUint_loop s0 maxVal n [] = (n, None)"
| "ParseUint_loop s0 maxVal n (c # cs) =
     (if \<not> isDigit c then (0, Some (ErrSyntax s0))
      else if n \<ge> cutoff10 then (maxVal, Some (ErrRange s0))
      else
        let m = n * 10;
            n1 = (m + digitValue c) mod 2 ^ 64
        in if n1 < m \<or> n1 > maxVal then (maxVal, Some (ErrRange s0))
           else ParseUint_loop s0 maxVal n1 cs)"

definition ParseUint :: "string \<Rightarrow> nat \<Rightarrow> nat \<times> error option" where
  "ParseUint s bitSize =
     (if s = [] then (0, Some (ErrSyntax s))
      else ParseUint_loop s (2 ^ bitSize - 1) 0 s)"

subsection \<open>\<open>filepath.Base\<close> with the separator \<open>/\<close>\<close>

definition stripTrailingSlashes :: "string \<Rightarrow> string" where
  "stripTrailingSlashes path = rev (dropWhile (\<lambda>c. c = CHR ''/'') (rev path))"

definition afterLastSlash :: "string \<Rightarrow> string" where
  "afterLastSlash path = rev (takeWhile (\<lambda>c. c \<noteq> CHR ''/'') (rev path))"

definition filepath_Base :: "string \<Rightarrow> string" where
  "filepath_Base path =
     (if path = [] then ''.''
      else let p = afterLastSlash (stripTrailingSlashes path)
           in if p = [] then ''/'' else p)"

subsection \<open>\<open>encoding/json\<close>: a string as a JSON string\<close>

text \<open>
  The encoder of \<open>json.Marshal\<close> for a Go string, with HTML escaping on (the default):
  the bytes below \<open>0x80\<close> pass unchanged unless they are control bytes, the quote, the
  backslash or one of \<open>< > &\<close>; a byte sequence that is not valid UTF-8 becomes
  the escape of U+FFFD, and the code points U+2028 and U+2029 are escaped.
\<close>

definition dquote :: char where
  "dquote = CHR 0x22"

definition backslash :: char where
  "backslash = CHR 0x5C"

definition hex :: string where
  "hex = ''0123456789abcdef''"

definition RuneError :: nat where
  "RuneError = 0xFFFD"

definition htmlSafe :: "char \<Rightarrow> bool" where
  "htmlSafe b \<longleftrightarrow>
     (of_char b :: nat) \<ge> 0x20 \<and> (of_char b :: nat) < 0x80 \<and>
     b \<noteq> dquote \<and> b \<noteq> CHR ''&'' \<and> b \<noteq> CHR ''<'' \<and> b \<noteq> CHR ''>'' \<and> b \<noteq> backslash"

definition escapeByte :: "char \<Rightarrow> string" where
  "escapeByte b =
     (if htmlSafe b then [b]
      else if b = backslash \<or> b = dquote then [backslash, b]
      else if b = CHR 0x08 then [backslash, CHR ''b'']
      else if b = CHR 0x0C then [backslash, CHR ''f'']
      else if b = CHR 0x0A then [backslash, CHR ''n'']
      else if b = CHR 0x0D then [backslash, CHR ''r'']
      else if b = CHR 0x09 then [backslash, CHR ''t'']
      else [backslash, CHR ''u'', CHR ''0'', CHR ''0'',
            hex ! ((of_char b :: nat) div 16), hex ! ((of_char b :: nat) mod 16)])"

text \<open>\<open>utf8.DecodeRuneInString\<close>: the code point at the head of the text and its width.\<close>

definition DecodeRuneInString :: "string \<Rightarrow> nat \<times> nat" where
  "DecodeRuneInString s =
     (case s of
        [] \<Rightarrow> (RuneError, 0)
      | b0 # _ \<Rightarrow>
          let s0 = (of_char b0 :: nat) in
          if s0 < 0x80 then (s0, 1)
          else if s0 < 0xC2 \<or> 0xF4 < s0 then (RuneError, 1)
          else
            let sz = (if s0 < 0xE0 then 2 else if s0 < 0xF0 then 3 else 4 :: nat);
                lo = (if s0 = 0xE0 then 0xA0 else if s0 = 0xF0 then 0x90 else 0x80 :: nat);
                hi = (if s0 = 0xED then 0x9F else if s0 = 0xF4 then 0x8F else 0xBF :: nat)
            in
              if length s < sz then (RuneError, 1)
              else
                let s1 = (of_char (s ! 1) :: nat) in
                if s1 < lo \<or> hi < s1 then (RuneError, 1)
                else if sz \<le> 2 then ((s0 mod 32) * 64 + s1 mod 64, 2)
                else
                  let s2 = (of_char (s ! 2) :: nat) in
                  if s2 < 0x80 \<or> 0xBF < s2 then (RuneError, 1)
                  else if sz \<le> 3 then ((s0 mod 16) * 4096 + (s1 mod 64) * 64 + s2 mod 64, 3)
                  else
                    let s3 = (of_char (s ! 3) :: nat) in
                    if s3 < 0x80 \<or> 0xBF < s3 then (RuneError, 1)
                    else ((s0 mod 8) * 262144 + (s1 mod 64) * 4096 + (s2 mod 64) * 64
                            + s3 mod 64, 4))"

fun appendString :: "string \<Rightarrow> string" where
  "appendString [] = []"
| "appendString (b # bs) =
     (if (of_char b :: nat) < 0x80 then escapeByte b @ appendString bs
      else
        case DecodeRuneInString (take 4 (b # bs)) of (c, width) \<Rightarrow>
          if c = RuneError \<and> width = 1
            then [backslash] @ ''ufffd'' @ appendString bs
          else if c = 0x2028 \<or> c = 0x2029
            then [backslash] @ ''u202'' @ [hex ! (c mod 16)] @ appendString (drop (width - 1) bs)
          else take width (b # bs) @ appendString (drop (width - 1) bs))"

definition json_string :: "string \<Rightarrow> string" where
  "json_string s = [dquote] @ appendString s @ [dquote]"

subsection \<open>\<open>net/http\<close>: header names, the request and the response writer\<close>

text \<open>
  \<open>textproto.CanonicalMIMEHeaderKey\<close>: a name made of token bytes gets an upper-case
  letter first and after each hyphen and lower-case letters elsewhere; any other name is
  returned as it is.
\<close>

definition validHeaderFieldByte :: "char \<Rightarrow> bool" where
  "validHeaderFieldByte c \<longleftrightarrow>
     (let n = (of_char c :: nat) in
        (48 \<le> n \<and> n \<le> 57) \<or> (65 \<le> n \<and> n \<le> 90) \<or> (97 \<le> n \<and> n \<le> 122) \<or>
        n \<in> {0x21, 0x23, 0x24, 0x25, 0x26, 0x27, 0x2A, 0x2B, 0x2D, 0x2E, 0x5E, 0x5F, 0x60,
              0x7C, 0x7E})"

definition lowerLetters :: string where
  "lowerLetters = ''abcdefghijklmnopqrstuvwxyz''"

definition upperLetters :: string where
  "upperLetters = ''ABCDEFGHIJKLMNOPQRSTUVWXYZ''"

fun canonicalLetters :: "bool \<Rightarrow> string \<Rightarrow> string" where
  "canonicalLetters upper [] = []"
| "canonicalLetters upper (c # cs) =
     (let n = (of_char c :: nat);
          c' = (if upper \<and> 97 \<le> n \<and> n \<le> 122 then upperLetters ! (n - 97)
                else if \<not> upper \<and> 65 \<le> n \<and> n \<le> 90 then lowerLetters ! (n - 65)
                else c)
      in c' # canonicalLetters (c' = CHR ''-'') cs)"

definition CanonicalMIMEHeaderKey :: "string \<Rightarrow> string" where
  "CanonicalMIMEHeaderKey s =
     (if list_all validHeaderFieldByte s then canonicalLetters True s else s)"

text \<open>
  The part of \<open>*http.Request\<close> the handlers read. \<open>Header\<close> is Go's
  \<open>map[string][]string\<close>, keyed by canonical names: a header that the request carries
  is a key of the map, also when its value is the empty string.
\<close>

record Request =
  Method :: string
  URL_Path :: string
  Header :: "string \<rightharpoonup> string list"
  RemoteAddr :: string
  Host :: string

text \<open>\<open>Header.Get\<close>: the first value stored under the canonical name, or the empty string.\<close>

definition Header_Get :: "(string \<rightharpoonup> string list) \<Rightarrow> string \<Rightarrow> string" where
  "Header_Get h key =
     (case h (CanonicalMIMEHeaderKey key) of
        None \<Rightarrow> []
      | Some [] \<Rightarrow> []
      | Some (v # _) \<Rightarrow> v)"

definition Request_UserAgent :: "Request \<Rightarrow> string" where
  "Request_UserAgent r = Header_Get (Header r) ''User-Agent''"

text \<open>
  An \<open>http.ResponseWriter\<close>: the header map the handler edits, the status line and header
  that went out with the first \<open>WriteHeader\<close> or \<open>Write\<close> (later calls of
  \<open>WriteHeader\<close> change nothing), and the body written so far.
\<close>

record ResponseWriter =
  HeaderMap :: "string \<rightharpoonup> string list"
  sent :: "(nat \<times> (string \<rightharpoonup> string list)) option"
  Body :: string

definition newWriter :: ResponseWriter where
  "newWriter = \<lparr>HeaderMap = Map.empty, sent = None, Body = []\<rparr>"

definition Header_Set :: "string \<Rightarrow> string \<Rightarrow> ResponseWriter \<Rightarrow> ResponseWriter" where
  "Header_Set key v w = w\<lparr>HeaderMap := (HeaderMap w)(CanonicalMIMEHeaderKey key \<mapsto> [v])\<rparr>"

definition WriteHeader :: "nat \<Rightarrow> ResponseWriter \<Rightarrow> ResponseWriter" where
  "WriteHeader code w = (if sent w = None then w\<lparr>sent := Some (code, HeaderMap w)\<rparr> else w)"

definition Write :: "string \<Rightarrow> ResponseWriter \<Rightarrow> ResponseWriter" where
  "Write b w = (let w' = WriteHeader 200 w in w'\<lparr>Body := Body w' @ b\<rparr>)"

definition Fprint :: "ResponseWriter \<Rightarrow> string \<Rightarrow> ResponseWriter" where
  "Fprint w s = Write s w"

definition Fprintln :: "ResponseWriter \<Rightarrow> string \<Rightarrow> ResponseWriter" where
  "Fprintln w s = Write (s @ [CHR 0x0A]) w"

section \<open>The data of \<open>http.go\<close>\<close>

record Response =
  IP :: IP
  IPDecimal :: nat
  Country :: string
  CountryISO :: string
  City :: string
  Hostname :: string

record PortResponse =
  IP' :: IP
  Port :: nat
  Reachable :: bool

text \<open>The zero values \<open>Response{}\<close> and \<open>PortResponse{Port: port}\<close>.\<close>

definition zeroResponse :: Response where
  "zeroResponse = \<lparr>IP = [], IPDecimal = 0, Country = [], CountryISO = [], City = [],
                    Hostname = []\<rparr>"

definition portOnly :: "nat \<Rightarrow> PortResponse" where
  "portOnly port = \<lparr>IP' = [], Port = port, Reachable = False\<rparr>"

text \<open>The anonymous struct that \<open>DefaultHandler\<close> hands to the template: it embeds \<open>Response\<close>.\<close>

record PageData = Response +
  data_Host :: string
  data_JSON :: string
  data_Port :: bool

subsection \<open>Collaborators\<close>

text \<open>
  The packages \<open>database\<close>, \<open>iputil\<close> and \<open>useragent\<close> of the repository, the parsers of
  package \<open>net\<close> and the template files are collaborators of \<open>http.go\<close>: the model takes
  them as parameters. A collaborator that returns \<open>(value, error)\<close> returns a pair.
\<close>

record Country =
  Name :: string
  ISO :: string

record Client =
  db_Country :: "IP \<Rightarrow> Country \<times> error option"
  db_City :: "IP \<Rightarrow> string \<times> error option"
  db_IsEmpty :: bool

record UserAgent =
  Product :: string
  Version :: string
  Comment :: string

text \<open>A parsed template: what executing it on the page data writes, and its error.\<close>

datatype Tmpl = Tmpl (Execute_fn: "PageData \<Rightarrow> string \<times> error option")

record packages =
  net_SplitHostPort :: "string \<Rightarrow> error + string \<times> string"
  net_ParseIP :: "string \<Rightarrow> IP option"
  IP_String :: "IP \<Rightarrow> string"
  iputil_ToDecimal :: "IP \<Rightarrow> nat"
  useragent_Parse :: "string \<Rightarrow> UserAgent"
  template_ParseFiles :: "string \<Rightarrow> error + Tmpl"

text \<open>
  The server. \<open>LookupAddr\<close> and \<open>LookupPort\<close> are function values that may be nil;
  \<open>New\<close> always sets \<open>db\<close>, so the record has no server without a database.
\<close>

record Server =
  Template :: string
  IPHeader :: string
  LookupAddr :: "(IP \<Rightarrow> string \<times> error option) option"
  LookupPort :: "(IP \<Rightarrow> nat \<Rightarrow> error option) option"
  db :: Client

subsection \<open>The structured error\<close>

text \<open>
  Modelled from the spec: the type \<open>appError\<close> and its functions \<open>badRequest\<close>,
  \<open>internalServerError\<close>, \<open>notFound\<close>, \<open>AsJSON\<close>, \<open>WithMessage\<close> and \<open>IsJSON\<close> are not in
  \<open>http.go\<close>. A structured error carries a status code, a message and an optional
  content type; each constructor fixes the status code (request error 400, internal
  error 500, not found 404); the spec names no initial message, so a constructor starts
  from the empty one and the properties below rest on messages that \<open>WithMessage\<close> set.
  \<open>WithMessage\<close> overrides the message, \<open>AsJSON\<close> marks the error with the JSON media
  type, and \<open>IsJSON\<close> reads that mark.
\<close>

record appError =
  Error :: "error option"
  Message :: string
  Code :: nat
  ContentType :: string

definition badRequest :: "error option \<Rightarrow> appError" where
  "badRequest err = \<lparr>Error = err, Message = [], Code = 400, ContentType = []\<rparr>"

definition internalServerError :: "error option \<Rightarrow> appError" where
  "internalServerError err = \<lparr>Error = err, Message = [], Code = 500, ContentType = []\<rparr>"

definition notFound :: "error option \<Rightarrow> appError" where
  "notFound err = \<lparr>Error = err, Message = [], Code = 404, ContentType = []\<rparr>"

definition AsJSON :: "appError \<Rightarrow> appError" where
  "AsJSON e = e\<lparr>ContentType := jsonMediaType\<rparr>"

definition WithMessage :: "string \<Rightarrow> appError \<Rightarrow> appError" where
  "WithMessage message e = e\<lparr>Message := message\<rparr>"

definition IsJSON :: "appError \<Rightarrow> bool" where
  "IsJSON e \<longleftrightarrow> ContentType e = jsonMediaType"

type_synonym appHandler =
  "ResponseWriter \<Rightarrow> Request \<Rightarrow> panic + ResponseWriter \<times> appError option"

subsection \<open>\<open>json.Marshal\<close> on the structs of \<open>http.go\<close>\<close>

fun join :: "string \<Rightarrow> string list \<Rightarrow> string" where
  "join sep [] = []"
| "join sep [x] = x"
| "join sep (x # y # ys) = x @ sep @ join sep (y # ys)"

definition json_object :: "(string \<times> string) list \<Rightarrow> string" where
  "json_object fs = ''{'' @ join '','' (map (\<lambda>(k, v). json_string k @ '':'' @ v) fs) @ ''}''"

text \<open>\<open>json.MarshalIndent(v, "", "  ")\<close> on an object with at least one field.\<close>

definition json_object_indent :: "(string \<times> string) list \<Rightarrow> string" where
  "json_object_indent fs =
     (if fs = [] then ''{}''
      else ''{'' @ [CHR 0x0A]
           @ join ('','' @ [CHR 0x0A]) (map (\<lambda>(k, v). ''  '' @ json_string k @ '': '' @ v) fs)
           @ [CHR 0x0A] @ ''}'')"

definition hexString :: "IP \<Rightarrow> string" where
  "hexString ip = concat (map (\<lambda>b. [hex ! (unat b div 16), hex ! (unat b mod 16)]) ip)"

text \<open>\<open>IP.MarshalText\<close>, which the encoder calls for a field of type \<open>net.IP\<close>.\<close>

definition MarshalText :: "packages \<Rightarrow> IP \<Rightarrow> error + string" where
  "MarshalText pk ip =
     (if length ip = 0 then Inr []
      else if length ip \<noteq> 4 \<and> length ip \<noteq> 16
        then Inl (AddrError ''invalid IP address'' (hexString ip))
      else Inr (IP_String pk ip))"

text \<open>A string field tagged \<open>omitempty\<close> is left out when it is empty.\<close>

definition omitempty :: "string \<Rightarrow> string \<Rightarrow> (string \<times> string) list" where
  "omitempty k v = (if v = [] then [] else [(k, json_string v)])"

definition Response_fields :: "packages \<Rightarrow> Response \<Rightarrow> error + (string \<times> string) list" where
  "Response_fields pk response =
     (case MarshalText pk (IP response) of
        Inl err \<Rightarrow> Inl err
      | Inr t \<Rightarrow>
          Inr ([(''ip'', json_string t), (''ip_decimal'', fmt_d (IPDecimal response))]
               @ omitempty ''country'' (Country response)
               @ omitempty ''country_iso'' (CountryISO response)
               @ omitempty ''city'' (City response)
               @ omitempty ''hostname'' (Hostname response)))"

definition json_Marshal_Response :: "packages \<Rightarrow> Response \<Rightarrow> error + string" where
  "json_Marshal_Response pk response = map_sum id json_object (Response_fields pk response)"

definition json_MarshalIndent_Response :: "packages \<Rightarrow> Response \<Rightarrow> error + string" where
  "json_MarshalIndent_Response pk response =
     map_sum id json_object_indent (Response_fields pk response)"

definition json_Marshal_PortResponse :: "packages \<Rightarrow> PortResponse \<Rightarrow> error + string" where
  "json_Marshal_PortResponse pk response =
     (case MarshalText pk (IP' response) of
        Inl err \<Rightarrow> Inl err
      | Inr t \<Rightarrow>
          Inr (json_object
                 [(''ip'', json_string t),
                  (''port'', fmt_d (Port response)),
                  (''reachable'', if Reachable response then ''true'' else ''false'')]))"

text \<open>The struct with the single field \<open>Error string `json:"error"`\<close>; its encoding cannot fail.\<close>

definition json_Marshal_errorDoc :: "string \<Rightarrow> error + string" where
  "json_Marshal_errorDoc message = Inr (json_object [(''error'', json_string message)])"

section \<open>The functions of \<open>http.go\<close>\<close>

definition ipFromRequest :: "packages \<Rightarrow> string \<Rightarrow> Request \<Rightarrow> error + IP" where
  "ipFromRequest pk header r =
     (case (let remoteIP = Header_Get (Header r) header in
            if remoteIP = [] then
              (case net_SplitHostPort pk (RemoteAddr r) of
                 Inl err \<Rightarrow> Inl err
               | Inr (host, _) \<Rightarrow> Inr host)
            else Inr remoteIP) of
        Inl err \<Rightarrow> Inl err
      | Inr remoteIP \<Rightarrow>
          (case net_ParseIP pk remoteIP of
             None \<Rightarrow> Inl (Errorf (''could not parse IP: '' @ remoteIP))
           | Some ip \<Rightarrow> Inr ip))"

definition newResponse :: "packages \<Rightarrow> Server \<Rightarrow> Request \<Rightarrow> Response \<times> error option" where
  "newResponse pk s r =
     (case ipFromRequest pk (IPHeader s) r of
        Inl err \<Rightarrow> (zeroResponse, Some err)
      | Inr ip \<Rightarrow>
          let ipDecimal = iputil_ToDecimal pk ip;
              country = fst (db_Country (db s) ip);
              city = fst (db_City (db s) ip);
              hostname = (case LookupAddr s of None \<Rightarrow> [] | Some lookup \<Rightarrow> fst (lookup ip))
          in (\<lparr>IP = ip, IPDecimal = ipDecimal, Country = Name country,
               CountryISO = ISO country, City = city, Hostname = hostname\<rparr>, None))"

text \<open>
  \<open>newPortResponse\<close> calls \<open>s.LookupPort\<close> without testing it: on a server without a
  port probe the call panics.
\<close>

definition newPortResponse ::
  "packages \<Rightarrow> Server \<Rightarrow> Request \<Rightarrow> panic + PortResponse \<times> error option" where
  "newPortResponse pk s r =
     (let lastElement = filepath_Base (URL_Path r);
          (port, err) = ParseUint lastElement 16
      in if err \<noteq> None \<or> port < 1 \<or> port > 65355
           then Inr (portOnly port, Some (Errorf (''invalid port: '' @ fmt_d port)))
         else
           case ipFromRequest pk (IPHeader s) r of
             Inl err \<Rightarrow> Inr (portOnly port, Some err)
           | Inr ip \<Rightarrow>
               (case LookupPort s of
                  None \<Rightarrow> Inl NilFuncCall
                | Some probe \<Rightarrow>
                    Inr (\<lparr>IP' = ip, Port = port, Reachable = (probe ip port = None)\<rparr>, None)))"

definition CLIHandler :: "packages \<Rightarrow> Server \<Rightarrow> appHandler" where
  "CLIHandler pk s w r =
     (case ipFromRequest pk (IPHeader s) r of
        Inl err \<Rightarrow> Inr (w, Some (internalServerError (Some err)))
      | Inr ip \<Rightarrow> Inr (Fprintln w (IP_String pk ip), None))"

definition CLICountryHandler :: "packages \<Rightarrow> Server \<Rightarrow> appHandler" where
  "CLICountryHandler pk s w r =
     (case newResponse pk s r of
        (response, Some err) \<Rightarrow> Inr (w, Some (internalServerError (Some err)))
      | (response, None) \<Rightarrow> Inr (Fprintln w (Country response), None))"

definition CLICountryISOHandler :: "packages \<Rightarrow> Server \<Rightarrow> appHandler" where
  "CLICountryISOHandler pk s w r =
     (case newResponse pk s r of
        (response, Some err) \<Rightarrow> Inr (w, Some (internalServerError (Some err)))
      | (response, None) \<Rightarrow> Inr (Fprintln w (CountryISO response), None))"

definition CLICityHandler :: "packages \<Rightarrow> Server \<Rightarrow> appHandler" where
  "CLICityHandler pk s w r =
     (case newResponse pk s r of
        (response, Some err) \<Rightarrow> Inr (w, Some (internalServerError (Some err)))
      | (response, None) \<Rightarrow> Inr (Fprintln w (City response), None))"

definition JSONHandler :: "packages \<Rightarrow> Server \<Rightarrow> appHandler" where
  "JSONHandler pk s w r =
     (case newResponse pk s r of
        (response, Some err) \<Rightarrow> Inr (w, Some (AsJSON (internalServerError (Some err))))
      | (response, None) \<Rightarrow>
          (case json_Marshal_Response pk response of
             Inl err \<Rightarrow> Inr (w, Some (AsJSON (internalServerError (Some err))))
           | Inr b \<Rightarrow> Inr (Write b (Header_Set ''Content-Type'' jsonMediaType w), None)))"

definition PortHandler :: "packages \<Rightarrow> Server \<Rightarrow> appHandler" where
  "PortHandler pk s w r =
     (case newPortResponse pk s r of
        Inl p \<Rightarrow> Inl p
      | Inr (response, Some err) \<Rightarrow>
          Inr (w, Some (AsJSON (WithMessage (''Invalid port: '' @ fmt_d (Port response))
                                  (badRequest (Some err)))))
      | Inr (response, None) \<Rightarrow>
          (case json_Marshal_PortResponse pk response of
             Inl err \<Rightarrow> Inr (w, Some (AsJSON (internalServerError (Some err))))
           | Inr b \<Rightarrow> Inr (Write b (Header_Set ''Content-Type'' jsonMediaType w), None)))"

text \<open>
  \<open>t.Execute(w, &data)\<close> writes what the template produced, a partial page when it stops
  with an error.
\<close>

definition Execute :: "Tmpl \<Rightarrow> ResponseWriter \<Rightarrow> PageData \<Rightarrow> ResponseWriter \<times> error option" where
  "Execute t w data =
     (let (out, err) = Execute_fn t data
      in (if out = [] then w else Write out w, err))"

definition DefaultHandler :: "packages \<Rightarrow> Server \<Rightarrow> appHandler" where
  "DefaultHandler pk s w r =
     (case newResponse pk s r of
        (response, Some err) \<Rightarrow> Inr (w, Some (internalServerError (Some err)))
      | (response, None) \<Rightarrow>
          (case template_ParseFiles pk (Template s) of
             Inl err \<Rightarrow> Inr (w, Some (internalServerError (Some err)))
           | Inr t \<Rightarrow>
               (case json_MarshalIndent_Response pk response of
                  Inl err \<Rightarrow> Inr (w, Some (internalServerError (Some err)))
                | Inr json \<Rightarrow>
                    let data = Response.extend response
                                 (PageData.fields (Host r) json (LookupPort s \<noteq> None))
                    in (case Execute t w data of
                          (w', Some err) \<Rightarrow> Inr (w', Some (internalServerError (Some err)))
                        | (w', None) \<Rightarrow> Inr (w', None)))))"

definition NotFoundHandler :: appHandler where
  "NotFoundHandler w r =
     (let err = WithMessage ''404 page not found'' (notFound None);
          err = (if Header_Get (Header r) ''accept'' = jsonMediaType then AsJSON err else err)
      in Inr (w, Some err))"

definition cliMatcher :: "packages \<Rightarrow> Request \<Rightarrow> bool" where
  "cliMatcher pk r =
     (let ua = useragent_Parse pk (Request_UserAgent r)
      in if Product ua \<in> set [''curl'', ''HTTPie'', ''Wget'', ''fetch libfetch'', ''Go'',
                                ''Go-http-client'', ''ddclient'']
         then True else False)"

text \<open>\<open>appHandler.ServeHTTP\<close>: the adapter between a handler and the wire.\<close>

definition ServeHTTP :: "appHandler \<Rightarrow> ResponseWriter \<Rightarrow> Request \<Rightarrow> panic + ResponseWriter" where
  "ServeHTTP fn w r =
     (case fn w r of
        Inl p \<Rightarrow> Inl p
      | Inr (w', None) \<Rightarrow> Inr w'
      | Inr (w', Some e) \<Rightarrow>
          (case (if IsJSON e
                 then (case json_Marshal_errorDoc (Message e) of
                         Inl err \<Rightarrow> Inl (PanicErr err)
                       | Inr b \<Rightarrow> Inr (e\<lparr>Message := b\<rparr>))
                 else Inr e) of
             Inl p \<Rightarrow> Inl p
           | Inr e' \<Rightarrow>
               let w'' = (if ContentType e' \<noteq> []
                          then Header_Set ''Content-Type'' (ContentType e') w'
                          else w')
               in Inr (Fprint (WriteHeader (Code e') w'') (Message e'))))"

subsection \<open>The router\<close>

text \<open>
  Modelled from the spec: \<open>NewRouter\<close>, \<open>Route\<close>, \<open>RoutePrefix\<close>, \<open>Header\<close>, \<open>MatcherFunc\<close>
  and the router's \<open>Handler\<close> are not in \<open>http.go\<close>. A route is a method (field \<open>verb\<close>), an exact path or
  a path prefix, header matchers that must all hold, an optional predicate and a handler;
  registering appends to an ordered list, \<open>Header\<close> and \<open>MatcherFunc\<close> act on the route
  just registered, and dispatch runs the first route that matches, or the not-found
  handler when none does.
\<close>

datatype PathRule = Exact string | Prefix string

record Route =
  verb :: string
  pathRule :: PathRule
  headerMatchers :: "(string \<times> string) list"
  predicate :: "(Request \<Rightarrow> bool) option"
  handler :: appHandler

record Router =
  routes :: "Route list"

definition NewRouter :: Router where
  "NewRouter = \<lparr>routes = []\<rparr>"

definition Route :: "string \<Rightarrow> string \<Rightarrow> appHandler \<Rightarrow> Router \<Rightarrow> Router" where
  "Route m path h rt =
     rt\<lparr>routes := routes rt @ [\<lparr>verb = m, pathRule = Exact path, headerMatchers = [],
                                  predicate = None, handler = h\<rparr>]\<rparr>"

definition RoutePrefix :: "string \<Rightarrow> string \<Rightarrow> appHandler \<Rightarrow> Router \<Rightarrow> Router" where
  "RoutePrefix m path h rt =
     rt\<lparr>routes := routes rt @ [\<lparr>verb = m, pathRule = Prefix path, headerMatchers = [],
                                  predicate = None, handler = h\<rparr>]\<rparr>"

definition onLastRoute :: "(Route \<Rightarrow> Route) \<Rightarrow> Router \<Rightarrow> Router" where
  "onLastRoute f rt =
     (if routes rt = [] then rt
      else rt\<lparr>routes := butlast (routes rt) @ [f (last (routes rt))]\<rparr>)"

definition Route_Header :: "string \<Rightarrow> string \<Rightarrow> Router \<Rightarrow> Router" where
  "Route_Header name v =
     onLastRoute (\<lambda>route. route\<lparr>headerMatchers := headerMatchers route @ [(name, v)]\<rparr>)"

definition Route_MatcherFunc :: "(Request \<Rightarrow> bool) \<Rightarrow> Router \<Rightarrow> Router" where
  "Route_MatcherFunc f = onLastRoute (\<lambda>route. route\<lparr>predicate := Some f\<rparr>)"

definition pathMatches :: "PathRule \<Rightarrow> string \<Rightarrow> bool" where
  "pathMatches rule path =
     (case rule of
        Exact p \<Rightarrow> path = p
      | Prefix p \<Rightarrow> take (length p) path = p)"

definition headerMatches :: "Request \<Rightarrow> string \<times> string \<Rightarrow> bool" where
  "headerMatches r m =
     (case Header r (CanonicalMIMEHeaderKey (fst m)) of
        Some (v # _) \<Rightarrow> v = snd m
      | _ \<Rightarrow> False)"

definition matches :: "Route \<Rightarrow> Request \<Rightarrow> bool" where
  "matches route r \<longleftrightarrow>
     Method r = verb route \<and>
     pathMatches (pathRule route) (URL_Path r) \<and>
     list_all (headerMatches r) (headerMatchers route) \<and>
     (case predicate route of None \<Rightarrow> True | Some f \<Rightarrow> f r)"

definition dispatch :: "Router \<Rightarrow> appHandler" where
  "dispatch rt w r =
     (case find (\<lambda>route. matches route r) (routes rt) of
        Some route \<Rightarrow> handler route w r
      | None \<Rightarrow> NotFoundHandler w r)"

definition Router_Handler :: "Router \<Rightarrow> ResponseWriter \<Rightarrow> Request \<Rightarrow> panic + ResponseWriter" where
  "Router_Handler rt = ServeHTTP (dispatch rt)"

subsection \<open>\<open>Server.Handler\<close>\<close>

text \<open>The router that \<open>Server.Handler\<close> fills, statement by statement.\<close>

definition Handler_router :: "packages \<Rightarrow> Server \<Rightarrow> Router" where
  "Handler_router pk s =
     (let r = NewRouter;
          r = Route_Header ''Accept'' jsonMediaType (Route ''GET'' ''/'' (JSONHandler pk s) r);
          r = Route ''GET'' ''/json'' (JSONHandler pk s) r;
          r = Route_MatcherFunc (cliMatcher pk) (Route ''GET'' ''/'' (CLIHandler pk s) r);
          r = Route_Header ''Accept'' textMediaType (Route ''GET'' ''/'' (CLIHandler pk s) r);
          r = Route ''GET'' ''/ip'' (CLIHandler pk s) r;
          r = (if \<not> db_IsEmpty (db s)
               then Route ''GET'' ''/city'' (CLICityHandler pk s)
                      (Route ''GET'' ''/country-iso'' (CLICountryISOHandler pk s)
                         (Route ''GET'' ''/country'' (CLICountryHandler pk s) r))
               else r);
          r = Route ''GET'' ''/'' (DefaultHandler pk s) r;
          r = (if LookupPort s \<noteq> None
               then RoutePrefix ''GET'' ''/port/'' (PortHandler pk s) r
               else r)
      in r)"

definition Handler :: "packages \<Rightarrow> Server \<Rightarrow> ResponseWriter \<Rightarrow> Request \<Rightarrow> panic + ResponseWriter" where
  "Handler pk s = Router_Handler (Handler_router pk s)"

section \<open>Collaborators for IPv4 callers\<close>

text \<open>
  The theorems below hold for every choice of the collaborators. To run the handlers on
  concrete requests, this section fixes one choice, for callers with IPv4 addresses:
  \<open>net.SplitHostPort\<close>, the dotted-decimal branch of \<open>net.ParseIP\<close> (text with a colon
  before the first dot, an IPv6 address, is outside this instance and treated as
  unparseable), the dotted-decimal output of \<open>IP.String\<close>, and lookups with fixed answers
  in the manner of the doubles a test of the handlers would use.
\<close>

fun indexByte :: "char \<Rightarrow> string \<Rightarrow> nat option" where
  "indexByte c [] = None"
| "indexByte c (x # xs) = (if x = c then Some 0 else map_option Suc (indexByte c xs))"

definition lastIndexByte :: "char \<Rightarrow> string \<Rightarrow> nat option" where
  "lastIndexByte c s = map_option (\<lambda>i. length s - 1 - i) (indexByte c (rev s))"

definition bracketCheck :: "string \<Rightarrow> nat \<Rightarrow> nat \<Rightarrow> nat \<Rightarrow> string \<Rightarrow> error + string \<times> string" where
  "bracketCheck hostport i j k host =
     (if CHR ''['' \<in> set (drop j hostport)
        then Inl (AddrError ''unexpected [ in address'' hostport)
      else if CHR '']'' \<in> set (drop k hostport)
        then Inl (AddrError ''unexpected ] in address'' hostport)
      else Inr (host, drop (i + 1) hostport))"

definition SplitHostPort :: "string \<Rightarrow> error + string \<times> string" where
  "SplitHostPort hostport =
     (case lastIndexByte CHR '':'' hostport of
        None \<Rightarrow> Inl (AddrError ''missing port in address'' hostport)
      | Some i \<Rightarrow>
          if take 1 hostport = ''[''
          then (case indexByte CHR '']'' hostport of
                  None \<Rightarrow> Inl (AddrError ''missing ] in address'' hostport)
                | Some e \<Rightarrow>
                    if e + 1 = length hostport
                      then Inl (AddrError ''missing port in address'' hostport)
                    else if e + 1 = i
                      then bracketCheck hostport i 1 (e + 1) (take (e - 1) (drop 1 hostport))
                    else if hostport ! (e + 1) = CHR '':''
                      then Inl (AddrError ''too many colons in address'' hostport)
                    else Inl (AddrError ''missing port in address'' hostport))
          else
            let host = take i hostport
            in if CHR '':'' \<in> set host
                 then Inl (AddrError ''too many colons in address'' hostport)
               else bracketCheck hostport i 0 0 host)"

fun parseIPv4_loop :: "nat \<Rightarrow> nat \<Rightarrow> nat list \<Rightarrow> string \<Rightarrow> nat list option" where
  "parseIPv4_loop val digLen octets [] =
     (if length octets < 3 then None else Some (octets @ [val]))"
| "parseIPv4_loop val digLen octets (c # cs) =
     (if isDigit c then
        (if digLen = 1 \<and> val = 0 then None
         else let val' = val * 10 + digitValue c
              in if val' > 255 then None
                 else parseIPv4_loop val' (digLen + 1) octets cs)
      else if c = CHR ''.'' then
        (if digLen = 0 \<or> cs = [] then None
         else if length octets = 3 then None
         else parseIPv4_loop 0 0 (octets @ [val]) cs)
      else None)"

definition v4InV6Prefix :: IP where
  "v4InV6Prefix = [0, 0, 0, 0, 0, 0, 0, 0, 0, 0, 0xff, 0xff]"

definition ParseIP :: "string \<Rightarrow> IP option" where
  "ParseIP s =
     (case find (\<lambda>c. c = CHR ''.'' \<or> c = CHR '':'' \<or> c = CHR ''%'') s of
        None \<Rightarrow> None
      | Some c \<Rightarrow>
          if c = CHR ''.''
          then map_option (\<lambda>octets. v4InV6Prefix @ map of_nat octets) (parseIPv4_loop 0 0 [] s)
          else None)"

definition To4 :: "IP \<Rightarrow> IP option" where
  "To4 ip =
     (if length ip = 4 then Some ip
      else if length ip = 16 \<and> take 12 ip = v4InV6Prefix then Some (drop 12 ip)
      else None)"

definition String :: "IP \<Rightarrow> string" where
  "String ip =
     (if length ip = 0 then ''<nil>''
      else case To4 ip of
             Some p4 \<Rightarrow> join ''.'' (map (\<lambda>b. fmt_d (unat b)) p4)
           | None \<Rightarrow> ''?'' @ hexString ip)"

definition ToDecimal :: "IP \<Rightarrow> nat" where
  "ToDecimal ip =
     (case To4 ip of
        Some p4 \<Rightarrow> foldl (\<lambda>acc b. acc * 256 + unat b) 0 p4
      | None \<Rightarrow> 0)"

definition Parse :: "string \<Rightarrow> UserAgent" where
  "Parse s =
     (let product = takeWhile (\<lambda>c. c \<noteq> CHR ''/'') s;
          rest = drop (length product + 1) s;
          version = takeWhile (\<lambda>c. c \<noteq> CHR '' '') rest
      in \<lparr>Product = product, Version = version,
          Comment = drop (length version + 1) rest\<rparr>)"

definition indexTemplate :: Tmpl where
  "indexTemplate =
     Tmpl (\<lambda>data. (''<html>'' @ String (IP data) @ '' '' @ data_Host data @ ''</html>'', None))"

definition ParseFiles :: "string \<Rightarrow> error + Tmpl" where
  "ParseFiles name =
     (if name = ''index.html'' then Inr indexTemplate
      else Inl (OtherError (''open '' @ name @ '': no such file or directory'')))"

definition ipv4_packages :: packages where
  "ipv4_packages =
     \<lparr>net_SplitHostPort = SplitHostPort, net_ParseIP = ParseIP, IP_String = String,
      iputil_ToDecimal = ToDecimal, useragent_Parse = Parse,
      template_ParseFiles = ParseFiles\<rparr>"

text \<open>A database that answers every lookup, and one whose lookups all fail.\<close>

definition testDb :: Client where
  "testDb =
     \<lparr>db_Country = (\<lambda>ip. (\<lparr>Name = ''Elbonia'', ISO = ''EB''\<rparr>, None)),
      db_City = (\<lambda>ip. (''Bornyasherk'', None)),
      db_IsEmpty = False\<rparr>"

definition failingDb :: Client where
  "failingDb =
     \<lparr>db_Country = (\<lambda>ip. (\<lparr>Name = [], ISO = []\<rparr>, Some (OtherError ''country lookup failed''))),
      db_City = (\<lambda>ip. ([], Some (OtherError ''city lookup failed''))),
      db_IsEmpty = False\<rparr>"

definition emptyDb :: Client where
  "emptyDb =
     \<lparr>db_Country = (\<lambda>ip. (\<lparr>Name = [], ISO = []\<rparr>, None)),
      db_City = (\<lambda>ip. ([], None)),
      db_IsEmpty = True\<rparr>"

text \<open>A probe that finds port 8080 open and every other port closed.\<close>

definition testLookupPort :: "IP \<Rightarrow> nat \<Rightarrow> error option" where
  "testLookupPort ip port =
     (if port = 8080 then None else Some (OtherError ''connection refused''))"

definition testServer :: Server where
  "testServer =
     \<lparr>Template = ''index.html'', IPHeader = ''X-Real-IP'',
      LookupAddr = Some (\<lambda>ip. (''localhost'', None)),
      LookupPort = Some testLookupPort,
      db = testDb\<rparr>"

text \<open>The same server with a database and a reverse lookup that fail on every address.\<close>

definition failingLookupAddr :: "IP \<Rightarrow> string \<times> error option" where
  "failingLookupAddr ip = ([], Some (OtherError ''lookup failed''))"

definition degradedServer :: Server where
  "degradedServer = testServer\<lparr>LookupAddr := Some failingLookupAddr, db := failingDb\<rparr>"

text \<open>A server with an empty database and without a port probe.\<close>

definition bareServer :: Server where
  "bareServer = testServer\<lparr>LookupPort := None, db := emptyDb\<rparr>"

text \<open>
  A database and a reverse lookup that fail on every address and return a value with the
  error, and the server that uses them.
\<close>

definition staleDb :: Client where
  "staleDb =
     \<lparr>db_Country = (\<lambda>ip. (\<lparr>Name = ''Elbonia'', ISO = ''EB''\<rparr>,
                                Some (OtherError ''country lookup failed''))),
      db_City = (\<lambda>ip. (''Bornyasherk'', Some (OtherError ''city lookup failed''))),
      db_IsEmpty = False\<rparr>"

definition staleLookupAddr :: "IP \<Rightarrow> string \<times> error option" where
  "staleLookupAddr ip = (''localhost'', Some (OtherError ''lookup failed''))"

definition staleServer :: Server where
  "staleServer = testServer\<lparr>LookupAddr := Some staleLookupAddr, db := staleDb\<rparr>"

text \<open>
  A template that stops with an error after it has written the head of the page, and the
  collaborators with this template for every file name.
\<close>

definition partialTemplate :: Tmpl where
  "partialTemplate =
     Tmpl (\<lambda>data. (''<html><body>'', Some (OtherError ''template: execution failed'')))"

definition partialPackages :: packages where
  "partialPackages = ipv4_packages\<lparr>template_ParseFiles := (\<lambda>name. Inr partialTemplate)\<rparr>"

text \<open>A handler that writes nothing and rejects every request, in JSON, with a fixed message.\<close>

definition rejectingHandler :: appHandler where
  "rejectingHandler w r = Inr (w, Some (AsJSON (WithMessage ''bad <input>'' (badRequest None))))"

definition getRequest :: "string \<Rightarrow> (string \<times> string) list \<Rightarrow> string \<Rightarrow> Request" where
  "getRequest path hs remote =
     \<lparr>Method = ''GET'', URL_Path = path,
      Header = map_of (map (\<lambda>(k, v). (CanonicalMIMEHeaderKey k, [v])) hs),
      RemoteAddr = remote, Host = ''ifconfig.example''\<rparr>"

section \<open>Notions used to state the properties\<close>

text \<open>
  The trailing path segment of a request, a segment that is a decimal numeral, and the
  number it denotes.
\<close>

definition portSegment :: "Request \<Rightarrow> string" where
  "portSegment r = filepath_Base (URL_Path r)"

definition numeric :: "string \<Rightarrow> bool" where
  "numeric seg \<longleftrightarrow> seg \<noteq> [] \<and> list_all isDigit seg"

definition decimalValue :: "string \<Rightarrow> nat" where
  "decimalValue seg = foldl (\<lambda>n c. n * 10 + digitValue c) 0 seg"

text \<open>The error that \<open>PortHandler\<close> returns for a rejected port, with the number it names.\<close>

definition invalidPort :: "nat \<Rightarrow> appError" where
  "invalidPort n =
     \<lparr>Error = Some (Errorf (''invalid port: '' @ fmt_d n)),
      Message = ''Invalid port: '' @ fmt_d n, Code = 400, ContentType = jsonMediaType\<rparr>"

text \<open>\<open>strings.Contains\<close>: the text holds the other as a contiguous part.\<close>

definition strings_Contains :: "string \<Rightarrow> string \<Rightarrow> bool" where
  "strings_Contains s substr =
     list_ex (\<lambda>i. take (length substr) (drop i s) = substr) [0..<Suc (length s)]"

section \<open>Evaluation rules\<close>

lemmas stdlib_defs =
  isDigit_def digitValue_def ParseUint_def cutoff10_def maxUint64_def filepath_Base_def afterLastSlash_def
  stripTrailingSlashes_def fmt_d.simps digits_def json_string_def escapeByte_def
  htmlSafe_def dquote_def backslash_def hex_def DecodeRuneInString_def RuneError_def
  CanonicalMIMEHeaderKey_def validHeaderFieldByte_def lowerLetters_def upperLetters_def
  Header_Get_def Request_UserAgent_def Header_Set_def WriteHeader_def Write_def
  Fprint_def Fprintln_def json_object_def json_object_indent_def hexString_def
  MarshalText_def omitempty_def Response_fields_def json_Marshal_Response_def
  json_MarshalIndent_Response_def json_Marshal_PortResponse_def json_Marshal_errorDoc_def
  jsonMediaType_def textMediaType_def Let_def

lemmas error_defs =
  badRequest_def internalServerError_def notFound_def AsJSON_def WithMessage_def IsJSON_def

lemmas instance_defs =
  ipv4_packages_def SplitHostPort_def lastIndexByte_def bracketCheck_def ParseIP_def
  v4InV6Prefix_def To4_def String_def ToDecimal_def Parse_def ParseFiles_def
  indexTemplate_def testDb_def failingDb_def emptyDb_def testLookupPort_def testServer_def
  failingLookupAddr_def degradedServer_def bareServer_def staleDb_def staleLookupAddr_def
  staleServer_def partialTemplate_def partialPackages_def rejectingHandler_def
  getRequest_def

lemmas handler_defs =
  ipFromRequest_def newResponse_def newPortResponse_def portOnly_def zeroResponse_def
  CLIHandler_def CLICountryHandler_def CLICountryISOHandler_def CLICityHandler_def
  JSONHandler_def PortHandler_def Execute_def DefaultHandler_def NotFoundHandler_def
  cliMatcher_def ServeHTTP_def

lemmas eval_defs = stdlib_defs error_defs instance_defs handler_defs

section \<open>\<open>strconv.ParseUint\<close> on 16 bits\<close>

lemma digitValue_le: "isDigit c \<Longrightarrow> digitValue c \<le> 9"
  unfolding isDigit_def digitValue_def by arith

lemma foldl_digits_mono: "n \<le> foldl (\<lambda>n c. n * 10 + digitValue c) n cs"
proof (induction cs arbitrary: n)
  case Nil
  show ?case by simp
next
  case (Cons c cs)
  have "n \<le> n * 10 + digitValue c" by simp
  also have "\<dots> \<le> foldl (\<lambda>n c. n * 10 + digitValue c) (n * 10 + digitValue c) cs"
    by (rule Cons.IH)
  finally show ?case by simp
qed

text \<open>One turn of the loop on a digit: the 64-bit accumulator cannot wrap below \<open>2^16\<close>.\<close>

lemma ParseUint_loop_step:
  assumes "isDigit c" and "n \<le> 65535"
  shows "ParseUint_loop s0 65535 n (c # cs) =
           (if n * 10 + digitValue c > 65535 then (65535, Some (ErrRange s0))
            else ParseUint_loop s0 65535 (n * 10 + digitValue c) cs)"
proof -
  from assms have small: "\<not> cutoff10 \<le> n" by (simp add: cutoff10_def maxUint64_def)
  from digitValue_le [OF assms(1)] assms(2) have "n * 10 + digitValue c < 2 ^ 64" by simp
  then have "(n * 10 + digitValue c) mod 2 ^ 64 = n * 10 + digitValue c" by simp
  with assms(1) small show ?thesis by (simp add: Let_def)
qed

lemma ParseUint_loop_digits:
  "list_all isDigit cs \<Longrightarrow> n \<le> 65535 \<Longrightarrow>
   ParseUint_loop s0 65535 n cs =
     (if foldl (\<lambda>n c. n * 10 + digitValue c) n cs \<le> 65535
      then (foldl (\<lambda>n c. n * 10 + digitValue c) n cs, None)
      else (65535, Some (ErrRange s0)))"
proof (induction cs arbitrary: n)
  case Nil
  then show ?case by simp
next
  case (Cons c cs)
  from Cons.prems have rest: "list_all isDigit cs" and dig: "isDigit c"
    by simp_all
  let ?n1 = "n * 10 + digitValue c"
  show ?case
  proof (cases "?n1 \<le> 65535")
    case True
    with Cons.IH [OF rest True] ParseUint_loop_step [OF dig Cons.prems(2)] show ?thesis
      by simp
  next
    case False
    have "?n1 \<le> foldl (\<lambda>n c. n * 10 + digitValue c) ?n1 cs" by (rule foldl_digits_mono)
    with False have "\<not> foldl (\<lambda>n c. n * 10 + digitValue c) ?n1 cs \<le> 65535" by linarith
    with False ParseUint_loop_step [OF dig Cons.prems(2)] show ?thesis
      by simp
  qed
qed

lemma ParseUint_loop_not_digits:
  "\<not> list_all isDigit cs \<Longrightarrow> n \<le> 65535 \<Longrightarrow>
   ParseUint_loop s0 65535 n cs = (0, Some (ErrSyntax s0)) \<or>
   ParseUint_loop s0 65535 n cs = (65535, Some (ErrRange s0))"
proof (induction cs arbitrary: n)
  case Nil
  then show ?case by simp
next
  case (Cons c cs)
  show ?case
  proof (cases "isDigit c")
    case False
    then show ?thesis by simp
  next
    case True
    with Cons.prems have rest: "\<not> list_all isDigit cs" by simp
    let ?n1 = "n * 10 + digitValue c"
    show ?thesis
    proof (cases "?n1 \<le> 65535")
      case le: True
      from Cons.IH [OF rest le] ParseUint_loop_step [OF True Cons.prems(2)] le
      show ?thesis by simp
    next
      case False
      with ParseUint_loop_step [OF True Cons.prems(2)] show ?thesis by simp
    qed
  qed
qed

lemma ParseUint_numeric:
  "numeric seg \<Longrightarrow>
   ParseUint seg 16 = (if decimalValue seg \<le> 65535 then (decimalValue seg, None)
                       else (65535, Some (ErrRange seg)))"
  using ParseUint_loop_digits [of seg 0 seg]
  by (simp add: ParseUint_def numeric_def decimalValue_def)

lemma ParseUint_not_numeric:
  "\<not> numeric seg \<Longrightarrow>
   ParseUint seg 16 = (0, Some (ErrSyntax seg)) \<or> ParseUint seg 16 = (65535, Some (ErrRange seg))"
  using ParseUint_loop_not_digits [of seg 0 seg]
  by (auto simp add: ParseUint_def numeric_def)

section \<open>Port validation\<close>

lemma newPortResponse_accepts:
  assumes "numeric (portSegment r)" and "1 \<le> decimalValue (portSegment r)"
    and "decimalValue (portSegment r) \<le> 65355"
  shows "newPortResponse pk s r =
           (case ipFromRequest pk (IPHeader s) r of
              Inl err \<Rightarrow> Inr (portOnly (decimalValue (portSegment r)), Some err)
            | Inr ip \<Rightarrow>
                (case LookupPort s of
                   None \<Rightarrow> Inl NilFuncCall
                 | Some probe \<Rightarrow>
                     Inr (\<lparr>IP' = ip, Port = decimalValue (portSegment r),
                           Reachable = (probe ip (decimalValue (portSegment r)) = None)\<rparr>,
                          None)))"
proof -
  from assms
  have "ParseUint (filepath_Base (URL_Path r)) 16 = (decimalValue (portSegment r), None)"
    using ParseUint_numeric [of "portSegment r"] by (simp add: portSegment_def)
  with assms(2,3) show ?thesis
    by (simp add: newPortResponse_def portSegment_def split: sum.splits option.splits)
qed

lemma PortHandler_rejects:
  assumes "ParseUint (portSegment r) 16 = (n, Some e)"
  shows "PortHandler pk s w r = Inr (w, Some (invalidPort n))"
  using assms
  by (simp add: PortHandler_def newPortResponse_def portSegment_def invalidPort_def portOnly_def
      error_defs)

lemma PortHandler_rejects_zero:
  assumes "ParseUint (portSegment r) 16 = (0, None)"
  shows "PortHandler pk s w r = Inr (w, Some (invalidPort 0))"
  using assms
  by (simp add: PortHandler_def newPortResponse_def portSegment_def invalidPort_def portOnly_def
      error_defs)

text \<open>
  The upper bound that \<open>newPortResponse\<close> tests is 65355: a numeral between 65356 and
  65535 is turned away although it is a port.
\<close>

lemma newPortResponse_65400:
  "newPortResponse ipv4_packages testServer (getRequest ''/port/65400'' [] ''192.0.2.1:4711'') =
     Inr (portOnly 65400, Some (Errorf ''invalid port: 65400''))"
  by (simp add: eval_defs)

text \<open>
  Claim C1, as amended. If the trailing path segment is a decimal numeral for a number
  \<open>P\<close> with \<open>1 \<le> P \<le> 65355\<close>, \<open>newPortResponse\<close> returns no port error: it goes on
  to resolve the caller's address and to probe port \<open>P\<close>. If the segment is a numeral
  for 0, \<open>PortHandler\<close> returns the JSON-marked 400 error with the message
  \<open>Invalid port: 0\<close>; if it is a numeral above 65535, the same error with the message
  \<open>Invalid port: 65535\<close>; if it is not a numeral, the same error with one of these two
  messages. The message names the number that \<open>strconv.ParseUint\<close> returned, not the text
  of the segment.
\<close>

theorem port_validation:
  "(numeric (portSegment r) \<and> 1 \<le> decimalValue (portSegment r)
      \<and> decimalValue (portSegment r) \<le> 65355 \<longrightarrow>
      newPortResponse pk s r =
        (case ipFromRequest pk (IPHeader s) r of
           Inl err \<Rightarrow> Inr (portOnly (decimalValue (portSegment r)), Some err)
         | Inr ip \<Rightarrow>
             (case LookupPort s of
                None \<Rightarrow> Inl NilFuncCall
              | Some probe \<Rightarrow>
                  Inr (\<lparr>IP' = ip, Port = decimalValue (portSegment r),
                        Reachable = (probe ip (decimalValue (portSegment r)) = None)\<rparr>,
                       None))))
   \<and> (numeric (portSegment r) \<and> decimalValue (portSegment r) = 0 \<longrightarrow>
        PortHandler pk s w r = Inr (w, Some (invalidPort 0)))
   \<and> (numeric (portSegment r) \<and> decimalValue (portSegment r) > 65535 \<longrightarrow>
        PortHandler pk s w r = Inr (w, Some (invalidPort 65535)))
   \<and> (\<not> numeric (portSegment r) \<longrightarrow>
        PortHandler pk s w r = Inr (w, Some (invalidPort 0)) \<or>
        PortHandler pk s w r = Inr (w, Some (invalidPort 65535)))"
proof (intro conjI impI)
  assume "numeric (portSegment r) \<and> 1 \<le> decimalValue (portSegment r)
            \<and> decimalValue (portSegment r) \<le> 65355"
  then show "newPortResponse pk s r =
        (case ipFromRequest pk (IPHeader s) r of
           Inl err \<Rightarrow> Inr (portOnly (decimalValue (portSegment r)), Some err)
         | Inr ip \<Rightarrow>
             (case LookupPort s of
                None \<Rightarrow> Inl NilFuncCall
              | Some probe \<Rightarrow>
                  Inr (\<lparr>IP' = ip, Port = decimalValue (portSegment r),
                        Reachable = (probe ip (decimalValue (portSegment r)) = None)\<rparr>,
                       None)))"
    by (simp add: newPortResponse_accepts)
next
  assume "numeric (portSegment r) \<and> decimalValue (portSegment r) = 0"
  then have "ParseUint (portSegment r) 16 = (0, None)"
    using ParseUint_numeric [of "portSegment r"] by simp
  then show "PortHandler pk s w r = Inr (w, Some (invalidPort 0))"
    by (rule PortHandler_rejects_zero)
next
  assume "numeric (portSegment r) \<and> decimalValue (portSegment r) > 65535"
  then have "ParseUint (portSegment r) 16 = (65535, Some (ErrRange (portSegment r)))"
    using ParseUint_numeric [of "portSegment r"] by simp
  then show "PortHandler pk s w r = Inr (w, Some (invalidPort 65535))"
    by (rule PortHandler_rejects)
next
  assume "\<not> numeric (portSegment r)"
  from ParseUint_not_numeric [OF this]
  show "PortHandler pk s w r = Inr (w, Some (invalidPort 0)) \<or>
        PortHandler pk s w r = Inr (w, Some (invalidPort 65535))"
    using PortHandler_rejects by blast
qed

text \<open>The four cases on the paths \<open>/port/8080\<close>, \<open>/port/0\<close>, \<open>/port/70000\<close> and \<open>/port/http\<close>.\<close>

theorem port_validation_witness:
  "newPortResponse ipv4_packages testServer (getRequest ''/port/8080'' [] ''192.0.2.1:4711'') =
     Inr (\<lparr>IP' = v4InV6Prefix @ [192, 0, 2, 1], Port = 8080, Reachable = True\<rparr>, None)
   \<and> PortHandler ipv4_packages testServer newWriter
        (getRequest ''/port/0'' [] ''192.0.2.1:4711'') =
       Inr (newWriter, Some (invalidPort 0))
   \<and> PortHandler ipv4_packages testServer newWriter
        (getRequest ''/port/70000'' [] ''192.0.2.1:4711'') =
       Inr (newWriter, Some (invalidPort 65535))
   \<and> PortHandler ipv4_packages testServer newWriter
        (getRequest ''/port/http'' [] ''192.0.2.1:4711'') =
       Inr (newWriter, Some (invalidPort 0))"
proof -
  let ?r = "\<lambda>path. getRequest path [] ''192.0.2.1:4711''"
  have seg: "portSegment (?r ''/port/8080'') = ''8080''" "portSegment (?r ''/port/0'') = ''0''"
    "portSegment (?r ''/port/70000'') = ''70000''" "portSegment (?r ''/port/http'') = ''http''"
    by (simp_all add: portSegment_def getRequest_def stdlib_defs)
  have num: "numeric ''8080''" "decimalValue ''8080'' = 8080" "numeric ''0''"
    "decimalValue ''0'' = 0" "numeric ''70000''" "decimalValue ''70000'' = 70000"
    "\<not> numeric ''http''"
    by (simp_all add: numeric_def decimalValue_def isDigit_def digitValue_def)
  have ip: "ipFromRequest ipv4_packages (IPHeader testServer) (?r ''/port/8080'') =
              Inr (v4InV6Prefix @ [192, 0, 2, 1])"
    by (simp add: eval_defs)
  have a: "newPortResponse ipv4_packages testServer (?r ''/port/8080'') =
     Inr (\<lparr>IP' = v4InV6Prefix @ [192, 0, 2, 1], Port = 8080, Reachable = True\<rparr>, None)"
    using port_validation [of "?r ''/port/8080''" ipv4_packages testServer newWriter] seg num ip
    by (simp add: testServer_def testLookupPort_def)
  have b: "PortHandler ipv4_packages testServer newWriter (?r ''/port/0'') =
             Inr (newWriter, Some (invalidPort 0))"
    using port_validation [of "?r ''/port/0''" ipv4_packages testServer newWriter] seg num
    by simp
  have c: "PortHandler ipv4_packages testServer newWriter (?r ''/port/70000'') =
             Inr (newWriter, Some (invalidPort 65535))"
    using port_validation [of "?r ''/port/70000''" ipv4_packages testServer newWriter] seg num
    by simp
  have "ParseUint ''http'' 16 = (0, Some (ErrSyntax ''http''))" by (simp add: stdlib_defs)
  then have "PortHandler ipv4_packages testServer newWriter (?r ''/port/http'') \<noteq>
               Inr (newWriter, Some (invalidPort 65535))"
    using seg
    by (simp add: PortHandler_def newPortResponse_def portSegment_def invalidPort_def
        portOnly_def error_defs stdlib_defs)
  then have d: "PortHandler ipv4_packages testServer newWriter (?r ''/port/http'') =
                  Inr (newWriter, Some (invalidPort 0))"
    using port_validation [of "?r ''/port/http''" ipv4_packages testServer newWriter] seg num
    by simp
  from a b c d show ?thesis by simp
qed

text \<open>
  Claim C1 as stated fails: for the path \<open>/port/70000\<close> the message is
  \<open>Invalid port: 65535\<close>, which does not hold the rejected text \<open>70000\<close>.
\<close>

theorem PortHandler_message_not_literal:
  "PortHandler ipv4_packages testServer newWriter
     (getRequest ''/port/70000'' [] ''192.0.2.1:4711'') =
     Inr (newWriter,
          Some \<lparr>Error = Some (Errorf ''invalid port: 65535''), Message = ''Invalid port: 65535'',
                Code = 400, ContentType = ''application/json''\<rparr>)
   \<and> \<not> strings_Contains ''Invalid port: 65535'' ''70000''"
  by (simp add: eval_defs strings_Contains_def upt_rec)

section \<open>The dispatch adapter\<close>

lemma json_string_error: "json_string ''error'' = [dquote] @ ''error'' @ [dquote]"
  by (simp add: json_string_def escapeByte_def htmlSafe_def dquote_def backslash_def)

lemma json_Marshal_errorDoc_eq:
  "json_Marshal_errorDoc message =
     Inr (''{'' @ [dquote] @ ''error'' @ [dquote] @ '':'' @ json_string message @ ''}'')"
  by (simp add: json_Marshal_errorDoc_def json_object_def json_string_error)

text \<open>A text of printable ASCII without the quote, the backslash and \<open>< > &\<close> is its own escape.\<close>

lemma appendString_plain: "list_all htmlSafe s \<Longrightarrow> appendString s = s"
proof (induction s)
  case Nil
  show ?case by simp
next
  case (Cons b bs)
  then have "htmlSafe b" and "appendString bs = bs" by simp_all
  moreover from \<open>htmlSafe b\<close> have "(of_char b :: nat) < 0x80" by (simp add: htmlSafe_def)
  ultimately show ?case by (simp add: escapeByte_def)
qed

lemma json_string_plain: "list_all htmlSafe s \<Longrightarrow> json_string s = [dquote] @ s @ [dquote]"
  by (simp add: json_string_def appendString_plain)

lemma canonical_Content_Type: "CanonicalMIMEHeaderKey ''Content-Type'' = ''Content-Type''"
  by (simp add: CanonicalMIMEHeaderKey_def validHeaderFieldByte_def lowerLetters_def upperLetters_def Let_def)

lemma ServeHTTP_nil: "fn w r = Inr (w', None) \<Longrightarrow> ServeHTTP fn w r = Inr w'"
  by (simp add: ServeHTTP_def)

lemma ServeHTTP_error:
  "fn w r = Inr (w', Some e) \<Longrightarrow>
   ServeHTTP fn w r =
     Inr (Fprint
            (WriteHeader (Code e)
               (if ContentType e \<noteq> [] then Header_Set ''Content-Type'' (ContentType e) w' else w'))
            (if IsJSON e
             then ''{'' @ [dquote] @ ''error'' @ [dquote] @ '':'' @ json_string (Message e) @ ''}''
             else Message e))"
  by (simp add: ServeHTTP_def json_Marshal_errorDoc_eq)

lemma error_on_fresh_writer:
  assumes "sent w' = None"
  shows "Fprint (WriteHeader code (if ct \<noteq> [] then Header_Set ''Content-Type'' ct w' else w')) body =
     w'\<lparr>HeaderMap := (if ct \<noteq> [] then (HeaderMap w')(''Content-Type'' \<mapsto> [ct]) else HeaderMap w'),
        sent := Some (code, if ct \<noteq> [] then (HeaderMap w')(''Content-Type'' \<mapsto> [ct]) else HeaderMap w'),
        Body := Body w' @ body\<rparr>"
  using assms
  by (simp add: Fprint_def Write_def WriteHeader_def Header_Set_def canonical_Content_Type Let_def)

text \<open>
  When the handler has written before it returns the error, the status line and header
  that went out stay as they are, and the adapter's message follows what the handler
  wrote.
\<close>

lemma error_on_written_writer:
  assumes "sent w' = Some st"
  shows "Fprint (WriteHeader code (if ct \<noteq> [] then Header_Set ''Content-Type'' ct w' else w')) body =
     w'\<lparr>HeaderMap := (if ct \<noteq> [] then (HeaderMap w')(''Content-Type'' \<mapsto> [ct]) else HeaderMap w'),
        Body := Body w' @ body\<rparr>"
  using assms
  by (simp add: Fprint_def Write_def WriteHeader_def Header_Set_def canonical_Content_Type Let_def)

text \<open>
  Claim C2, as amended. When the handler returns nil, the adapter returns the writer as the
  handler left it: it writes nothing. When the handler returns a structured error, the
  adapter sets the error's content type if it has one, calls \<open>WriteHeader\<close> with the
  error's status code and prints the message, for an error marked as JSON the JSON object
  whose single field \<open>error\<close> holds the message. When the handler returned the error
  without having written to the response, the response is exactly what the adapter wrote:
  the error's status code, its content type, and after the body so far the message or its
  JSON object; for a message of printable ASCII without the quote, the backslash and
  \<open>< > &\<close> that object is the message between quotes after \<open>{"error":\<close>.
\<close>

theorem ServeHTTP_adapter:
  "(fn w r = Inr (w', None) \<longrightarrow> ServeHTTP fn w r = Inr w')
   \<and> (fn w r = Inr (w', Some e) \<longrightarrow>
        ServeHTTP fn w r =
          Inr (Fprint
                 (WriteHeader (Code e)
                    (if ContentType e \<noteq> [] then Header_Set ''Content-Type'' (ContentType e) w'
                     else w'))
                 (if IsJSON e
                  then ''{'' @ [dquote] @ ''error'' @ [dquote] @ '':'' @ json_string (Message e) @ ''}''
                  else Message e)))
   \<and> (fn w r = Inr (w', Some e) \<and> sent w' = None \<longrightarrow>
        ServeHTTP fn w r =
          Inr (w'\<lparr>HeaderMap := (if ContentType e \<noteq> []
                                  then (HeaderMap w')(''Content-Type'' \<mapsto> [ContentType e])
                                  else HeaderMap w'),
                  sent := Some (Code e,
                                if ContentType e \<noteq> []
                                then (HeaderMap w')(''Content-Type'' \<mapsto> [ContentType e])
                                else HeaderMap w'),
                  Body := Body w' @
                            (if IsJSON e
                             then ''{'' @ [dquote] @ ''error'' @ [dquote] @ '':''
                                    @ json_string (Message e) @ ''}''
                             else Message e)\<rparr>))
   \<and> (fn w r = Inr (w', Some e) \<and> sent w' = None \<and> IsJSON e
        \<and> list_all htmlSafe (Message e) \<longrightarrow>
        ServeHTTP fn w r =
          Inr (w'\<lparr>HeaderMap := (HeaderMap w')(''Content-Type'' \<mapsto> [''application/json'']),
                  sent := Some (Code e,
                                (HeaderMap w')(''Content-Type'' \<mapsto> [''application/json''])),
                  Body := Body w' @ ''{'' @ [dquote] @ ''error'' @ [dquote] @ '':'' @ [dquote]
                            @ Message e @ [dquote] @ ''}''\<rparr>))
   \<and> (fn w r = Inr (w', Some e) \<and> sent w' = None \<and> ContentType e = [] \<longrightarrow>
        ServeHTTP fn w r =
          Inr (w'\<lparr>sent := Some (Code e, HeaderMap w'), Body := Body w' @ Message e\<rparr>))"
proof (intro conjI impI)
  assume "fn w r = Inr (w', None)"
  then show "ServeHTTP fn w r = Inr w'" by (rule ServeHTTP_nil)
next
  assume "fn w r = Inr (w', Some e)"
  then show "ServeHTTP fn w r =
          Inr (Fprint
                 (WriteHeader (Code e)
                    (if ContentType e \<noteq> [] then Header_Set ''Content-Type'' (ContentType e) w'
                     else w'))
                 (if IsJSON e
                  then ''{'' @ [dquote] @ ''error'' @ [dquote] @ '':'' @ json_string (Message e) @ ''}''
                  else Message e))"
    by (rule ServeHTTP_error)
next
  assume a: "fn w r = Inr (w', Some e) \<and> sent w' = None"
  then have "sent w' = None" by simp
  from error_on_fresh_writer [OF this, where ct = "ContentType e"] a
    ServeHTTP_error [of fn w r w' e]
  show "ServeHTTP fn w r =
          Inr (w'\<lparr>HeaderMap := (if ContentType e \<noteq> []
                                  then (HeaderMap w')(''Content-Type'' \<mapsto> [ContentType e])
                                  else HeaderMap w'),
                  sent := Some (Code e,
                                if ContentType e \<noteq> []
                                then (HeaderMap w')(''Content-Type'' \<mapsto> [ContentType e])
                                else HeaderMap w'),
                  Body := Body w' @
                            (if IsJSON e
                             then ''{'' @ [dquote] @ ''error'' @ [dquote] @ '':''
                                    @ json_string (Message e) @ ''}''
                             else Message e)\<rparr>)"
    by simp
next
  assume a: "fn w r = Inr (w', Some e) \<and> sent w' = None \<and> IsJSON e
        \<and> list_all htmlSafe (Message e)"
  then have ct: "ContentType e = ''application/json''" by (simp add: IsJSON_def jsonMediaType_def)
  from a have js: "json_string (Message e) = [dquote] @ Message e @ [dquote]"
    by (simp add: json_string_plain)
  from a have "sent w' = None" by simp
  from error_on_fresh_writer [OF this, where ct = "ContentType e"] a ct js
    ServeHTTP_error [of fn w r w' e]
  show "ServeHTTP fn w r =
          Inr (w'\<lparr>HeaderMap := (HeaderMap w')(''Content-Type'' \<mapsto> [''application/json'']),
                  sent := Some (Code e,
                                (HeaderMap w')(''Content-Type'' \<mapsto> [''application/json''])),
                  Body := Body w' @ ''{'' @ [dquote] @ ''error'' @ [dquote] @ '':'' @ [dquote]
                            @ Message e @ [dquote] @ ''}''\<rparr>)"
    by simp
next
  assume a: "fn w r = Inr (w', Some e) \<and> sent w' = None \<and> ContentType e = []"
  then have "\<not> IsJSON e" by (simp add: IsJSON_def jsonMediaType_def)
  with a ServeHTTP_error [of fn w r w' e] error_on_fresh_writer [where w' = w' and ct = "ContentType e"]
  show "ServeHTTP fn w r =
          Inr (w'\<lparr>sent := Some (Code e, HeaderMap w'), Body := Body w' @ Message e\<rparr>)"
    by simp
qed

text \<open>
  The cases: \<open>/ip\<close> answered by the handler, \<open>/port/0\<close> rejected with a JSON error, an
  unknown path rejected in plain text, and a JSON error whose message needs escaping.
\<close>

theorem ServeHTTP_adapter_witness:
  "ServeHTTP (CLIHandler ipv4_packages testServer) newWriter
     (getRequest ''/ip'' [] ''192.0.2.1:4711'') =
     Inr \<lparr>HeaderMap = Map.empty, sent = Some (200, Map.empty),
          Body = ''192.0.2.1'' @ [CHR 0x0A]\<rparr>
   \<and> ServeHTTP (PortHandler ipv4_packages testServer) newWriter
        (getRequest ''/port/0'' [] ''192.0.2.1:4711'') =
       Inr \<lparr>HeaderMap = [''Content-Type'' \<mapsto> [''application/json'']],
            sent = Some (400, [''Content-Type'' \<mapsto> [''application/json'']]),
            Body = ''{'' @ [dquote] @ ''error'' @ [dquote] @ '':'' @ [dquote]
                     @ ''Invalid port: 0'' @ [dquote] @ ''}''\<rparr>
   \<and> ServeHTTP NotFoundHandler newWriter
        (getRequest ''/nonexistent'' [(''Accept'', ''text/plain'')] ''192.0.2.1:4711'') =
       Inr \<lparr>HeaderMap = Map.empty, sent = Some (404, Map.empty),
            Body = ''404 page not found''\<rparr>
   \<and> ServeHTTP rejectingHandler newWriter (getRequest ''/'' [] ''192.0.2.1:4711'') =
       Inr \<lparr>HeaderMap = [''Content-Type'' \<mapsto> [''application/json'']],
            sent = Some (400, [''Content-Type'' \<mapsto> [''application/json'']]),
            Body = ''{'' @ [dquote] @ ''error'' @ [dquote] @ '':'' @ [dquote] @ ''bad ''
                     @ [backslash] @ ''u003cinput'' @ [backslash] @ ''u003e'' @ [dquote]
                     @ ''}''\<rparr>"
proof -
  let ?r1 = "getRequest ''/ip'' [] ''192.0.2.1:4711''"
  let ?r2 = "getRequest ''/port/0'' [] ''192.0.2.1:4711''"
  let ?r3 = "getRequest ''/nonexistent'' [(''Accept'', ''text/plain'')] ''192.0.2.1:4711''"
  let ?r4 = "getRequest ''/'' [] ''192.0.2.1:4711''"
  let ?w1 = "\<lparr>HeaderMap = Map.empty, sent = Some (200, Map.empty),
              Body = ''192.0.2.1'' @ [CHR 0x0A]\<rparr>"
  let ?e2 = "\<lparr>Error = Some (Errorf ''invalid port: 0''), Message = ''Invalid port: 0'',
              Code = 400, ContentType = ''application/json''\<rparr>"
  let ?e3 = "\<lparr>Error = None, Message = ''404 page not found'', Code = 404, ContentType = []\<rparr>"
  let ?e4 = "\<lparr>Error = None, Message = ''bad <input>'', Code = 400,
              ContentType = ''application/json''\<rparr>"
  have h1: "CLIHandler ipv4_packages testServer newWriter ?r1 = Inr (?w1, None)"
    by (simp add: eval_defs newWriter_def)
  have h2: "PortHandler ipv4_packages testServer newWriter ?r2 = Inr (newWriter, Some ?e2)"
    by (simp add: eval_defs)
  have h3: "NotFoundHandler newWriter ?r3 = Inr (newWriter, Some ?e3)"
    by (simp add: eval_defs)
  have h4: "rejectingHandler newWriter ?r4 = Inr (newWriter, Some ?e4)"
    by (simp add: rejectingHandler_def error_defs jsonMediaType_def)
  have fresh: "sent newWriter = None" "HeaderMap newWriter = Map.empty" "Body newWriter = []"
    by (simp_all add: newWriter_def)
  have plain: "list_all htmlSafe ''Invalid port: 0''" "IsJSON ?e2" "IsJSON ?e4" "\<not> IsJSON ?e3"
    by (simp_all add: htmlSafe_def dquote_def backslash_def IsJSON_def jsonMediaType_def)
  have j4: "json_string ''bad <input>'' =
      [dquote] @ ''bad '' @ [backslash] @ ''u003cinput'' @ [backslash] @ ''u003e'' @ [dquote]"
    by (simp add: json_string_def escapeByte_def htmlSafe_def dquote_def backslash_def hex_def)
  have a: "ServeHTTP (CLIHandler ipv4_packages testServer) newWriter ?r1 = Inr ?w1"
    using ServeHTTP_adapter [of "CLIHandler ipv4_packages testServer" newWriter ?r1 ?w1] h1
    by simp
  have b: "ServeHTTP (PortHandler ipv4_packages testServer) newWriter ?r2 =
       Inr \<lparr>HeaderMap = [''Content-Type'' \<mapsto> [''application/json'']],
            sent = Some (400, [''Content-Type'' \<mapsto> [''application/json'']]),
            Body = ''{'' @ [dquote] @ ''error'' @ [dquote] @ '':'' @ [dquote]
                     @ ''Invalid port: 0'' @ [dquote] @ ''}''\<rparr>"
    using ServeHTTP_adapter [of "PortHandler ipv4_packages testServer" newWriter ?r2 newWriter ?e2,
        THEN conjunct2, THEN conjunct2, THEN conjunct2, THEN conjunct1]
      h2 fresh plain
    by (simp add: newWriter_def)
  have c: "ServeHTTP NotFoundHandler newWriter ?r3 =
       Inr \<lparr>HeaderMap = Map.empty, sent = Some (404, Map.empty),
            Body = ''404 page not found''\<rparr>"
    using ServeHTTP_adapter [of NotFoundHandler newWriter ?r3 newWriter ?e3,
        THEN conjunct2, THEN conjunct2, THEN conjunct2, THEN conjunct2]
      h3 fresh
    by (simp add: newWriter_def)
  have d: "ServeHTTP rejectingHandler newWriter ?r4 =
       Inr \<lparr>HeaderMap = [''Content-Type'' \<mapsto> [''application/json'']],
            sent = Some (400, [''Content-Type'' \<mapsto> [''application/json'']]),
            Body = ''{'' @ [dquote] @ ''error'' @ [dquote] @ '':'' @ [dquote] @ ''bad ''
                     @ [backslash] @ ''u003cinput'' @ [backslash] @ ''u003e'' @ [dquote]
                     @ ''}''\<rparr>"
    using ServeHTTP_adapter [of rejectingHandler newWriter ?r4 newWriter ?e4,
        THEN conjunct2, THEN conjunct2, THEN conjunct1]
      h4 fresh plain j4
    by (simp add: newWriter_def)
  from a b c d show ?thesis by blast
qed

text \<open>
  Claim C2 as stated fails: the template writes the head of the page, which sends the
  status 200, and stops with an error; \<open>DefaultHandler\<close> returns the internal server
  error, and the adapter's \<open>WriteHeader(500)\<close> comes too late. Both the handler and the
  adapter have written, and the status of the response is not the error's.
\<close>

theorem DefaultHandler_partial_page:
  "DefaultHandler partialPackages testServer newWriter (getRequest ''/'' [] ''192.0.2.1:4711'') =
     Inr (\<lparr>HeaderMap = Map.empty, sent = Some (200, Map.empty), Body = ''<html><body>''\<rparr>,
          Some (internalServerError (Some (OtherError ''template: execution failed''))))
   \<and> Code (internalServerError (Some (OtherError ''template: execution failed''))) = 500
   \<and> ServeHTTP (DefaultHandler partialPackages testServer) newWriter
        (getRequest ''/'' [] ''192.0.2.1:4711'') =
       Inr \<lparr>HeaderMap = Map.empty, sent = Some (200, Map.empty),
            Body = ''<html><body>''
                   @ Message (internalServerError (Some (OtherError ''template: execution failed'')))\<rparr>"
  by (simp add: eval_defs newWriter_def Response.extend_def PageData.fields_def)

section \<open>The identity response\<close>

lemma newResponse_Inl:
  "ipFromRequest pk (IPHeader s) r = Inl err \<Longrightarrow> newResponse pk s r = (zeroResponse, Some err)"
  by (simp add: newResponse_def)

lemma newResponse_Inr:
  "ipFromRequest pk (IPHeader s) r = Inr ip \<Longrightarrow>
   newResponse pk s r =
     (\<lparr>IP = ip, IPDecimal = iputil_ToDecimal pk ip,
       Country = Name (fst (db_Country (db s) ip)),
       CountryISO = ISO (fst (db_Country (db s) ip)),
       City = fst (db_City (db s) ip),
       Hostname = (case LookupAddr s of None \<Rightarrow> [] | Some lookup \<Rightarrow> fst (lookup ip))\<rparr>, None)"
  by (simp add: newResponse_def Let_def)

text \<open>
  Claim C3, as amended. \<open>newResponse\<close> returns an error exactly when \<open>ipFromRequest\<close> does,
  and then that error. When the caller's address parses, no database and no reverse
  lookup, whatever they return, makes \<open>newResponse\<close> fail: the error of a collaborator is
  dropped, and the field of the \<open>Response\<close> holds the value the collaborator returned with
  it. The fields are empty, and the JSON encoding has the fields \<open>ip\<close> and \<open>ip_decimal\<close>
  only, when the collaborators return their zero values.
\<close>

theorem newResponse_fails_only_on_address:
  "(snd (newResponse pk s r) \<noteq> None \<longleftrightarrow> isl (ipFromRequest pk (IPHeader s) r))
   \<and> (ipFromRequest pk (IPHeader s) r = Inl err \<longrightarrow>
        newResponse pk s r = (zeroResponse, Some err))
   \<and> (ipFromRequest pk (IPHeader s) r = Inr ip \<longrightarrow>
        snd (newResponse pk (s\<lparr>LookupAddr := la, db := d\<rparr>) r) = None
        \<and> IP (fst (newResponse pk (s\<lparr>LookupAddr := la, db := d\<rparr>) r)) = ip)
   \<and> (ipFromRequest pk (IPHeader s) r = Inr ip
        \<and> db_Country (db s) ip = (country, e1)
        \<and> db_City (db s) ip = (city, e2)
        \<and> (case LookupAddr s of
              None \<Rightarrow> hostname = []
            | Some lookup \<Rightarrow> lookup ip = (hostname, e3)) \<longrightarrow>
        newResponse pk s r =
          (\<lparr>IP = ip, IPDecimal = iputil_ToDecimal pk ip, Country = Name country,
            CountryISO = ISO country, City = city, Hostname = hostname\<rparr>, None))
   \<and> (ipFromRequest pk (IPHeader s) r = Inr ip
        \<and> fst (db_Country (db s) ip) = \<lparr>Name = [], ISO = []\<rparr>
        \<and> fst (db_City (db s) ip) = []
        \<and> (case LookupAddr s of None \<Rightarrow> True | Some lookup \<Rightarrow> fst (lookup ip) = []) \<longrightarrow>
        newResponse pk s r =
          (\<lparr>IP = ip, IPDecimal = iputil_ToDecimal pk ip, Country = [], CountryISO = [],
            City = [], Hostname = []\<rparr>, None)
        \<and> json_Marshal_Response pk (fst (newResponse pk s r)) =
            (case MarshalText pk ip of
               Inl e \<Rightarrow> Inl e
             | Inr t \<Rightarrow>
                 Inr (json_object [(''ip'', json_string t),
                                   (''ip_decimal'', fmt_d (iputil_ToDecimal pk ip))])))"
proof (intro conjI impI)
  show "snd (newResponse pk s r) \<noteq> None \<longleftrightarrow> isl (ipFromRequest pk (IPHeader s) r)"
    by (cases "ipFromRequest pk (IPHeader s) r") (simp_all add: newResponse_Inl newResponse_Inr)
next
  assume "ipFromRequest pk (IPHeader s) r = Inl err"
  then show "newResponse pk s r = (zeroResponse, Some err)" by (rule newResponse_Inl)
next
  assume "ipFromRequest pk (IPHeader s) r = Inr ip"
  then have a: "ipFromRequest pk (IPHeader (s\<lparr>LookupAddr := la, db := d\<rparr>)) r = Inr ip" by simp
  show "snd (newResponse pk (s\<lparr>LookupAddr := la, db := d\<rparr>) r) = None"
    by (simp add: newResponse_Inr [OF a])
  show "IP (fst (newResponse pk (s\<lparr>LookupAddr := la, db := d\<rparr>) r)) = ip"
    by (simp add: newResponse_Inr [OF a])
next
  assume h: "ipFromRequest pk (IPHeader s) r = Inr ip
        \<and> db_Country (db s) ip = (country, e1)
        \<and> db_City (db s) ip = (city, e2)
        \<and> (case LookupAddr s of
              None \<Rightarrow> hostname = []
            | Some lookup \<Rightarrow> lookup ip = (hostname, e3))"
  then have ip: "ipFromRequest pk (IPHeader s) r = Inr ip" by simp
  from h show "newResponse pk s r =
          (\<lparr>IP = ip, IPDecimal = iputil_ToDecimal pk ip, Country = Name country,
            CountryISO = ISO country, City = city, Hostname = hostname\<rparr>, None)"
    by (simp add: newResponse_Inr [OF ip] split: option.splits)
next
  assume h: "ipFromRequest pk (IPHeader s) r = Inr ip
        \<and> fst (db_Country (db s) ip) = \<lparr>Name = [], ISO = []\<rparr>
        \<and> fst (db_City (db s) ip) = []
        \<and> (case LookupAddr s of None \<Rightarrow> True | Some lookup \<Rightarrow> fst (lookup ip) = [])"
  then have ip: "ipFromRequest pk (IPHeader s) r = Inr ip" by simp
  from h show empty: "newResponse pk s r =
          (\<lparr>IP = ip, IPDecimal = iputil_ToDecimal pk ip, Country = [], CountryISO = [],
            City = [], Hostname = []\<rparr>, None)"
    by (simp add: newResponse_Inr [OF ip] split: option.splits)
  show "json_Marshal_Response pk (fst (newResponse pk s r)) =
            (case MarshalText pk ip of
               Inl e \<Rightarrow> Inl e
             | Inr t \<Rightarrow>
                 Inr (json_object [(''ip'', json_string t),
                                   (''ip_decimal'', fmt_d (iputil_ToDecimal pk ip))]))"
    by (simp add: empty json_Marshal_Response_def Response_fields_def omitempty_def
        split: sum.splits)
qed

text \<open>
  A server whose lookups fail with their zero values, asked by 192.0.2.1 and by a caller
  it cannot parse, and a server whose lookups fail with a value.
\<close>

theorem newResponse_fails_only_on_address_witness:
  "newResponse ipv4_packages degradedServer (getRequest ''/json'' [] ''192.0.2.1:4711'') =
     (\<lparr>IP = v4InV6Prefix @ [192, 0, 2, 1], IPDecimal = 3221225985, Country = [],
       CountryISO = [], City = [], Hostname = []\<rparr>, None)
   \<and> json_Marshal_Response ipv4_packages
        (fst (newResponse ipv4_packages degradedServer
                (getRequest ''/json'' [] ''192.0.2.1:4711''))) =
       Inr (''{'' @ [dquote] @ ''ip'' @ [dquote] @ '':'' @ [dquote] @ ''192.0.2.1'' @ [dquote]
            @ '','' @ [dquote] @ ''ip_decimal'' @ [dquote] @ '':3221225985}'')
   \<and> newResponse ipv4_packages degradedServer
        (getRequest ''/json'' [(''X-Real-IP'', ''unknown'')] ''192.0.2.1:4711'') =
       (zeroResponse, Some (Errorf ''could not parse IP: unknown''))
   \<and> newResponse ipv4_packages staleServer (getRequest ''/json'' [] ''192.0.2.1:4711'') =
       (\<lparr>IP = v4InV6Prefix @ [192, 0, 2, 1], IPDecimal = 3221225985, Country = ''Elbonia'',
         CountryISO = ''EB'', City = ''Bornyasherk'', Hostname = ''localhost''\<rparr>, None)"
proof -
  let ?r = "getRequest ''/json'' [] ''192.0.2.1:4711''"
  let ?r' = "getRequest ''/json'' [(''X-Real-IP'', ''unknown'')] ''192.0.2.1:4711''"
  let ?ip = "v4InV6Prefix @ [192, 0, 2, 1]"
  have ip: "ipFromRequest ipv4_packages (IPHeader degradedServer) ?r = Inr ?ip"
    "ipFromRequest ipv4_packages (IPHeader staleServer) ?r = Inr ?ip"
    by (simp_all add: eval_defs)
  have bad: "ipFromRequest ipv4_packages (IPHeader degradedServer) ?r' =
               Inl (Errorf ''could not parse IP: unknown'')"
    by (simp add: eval_defs)
  have fails: "db_Country (db degradedServer) ?ip =
                 (\<lparr>Name = [], ISO = []\<rparr>, Some (OtherError ''country lookup failed''))"
    "db_City (db degradedServer) ?ip = ([], Some (OtherError ''city lookup failed''))"
    "LookupAddr degradedServer = Some failingLookupAddr"
    "failingLookupAddr ?ip = ([], Some (OtherError ''lookup failed''))"
    by (simp_all add: degradedServer_def failingDb_def failingLookupAddr_def)
  have stale: "db_Country (db staleServer) ?ip =
                 (\<lparr>Name = ''Elbonia'', ISO = ''EB''\<rparr>, Some (OtherError ''country lookup failed''))"
    "db_City (db staleServer) ?ip = (''Bornyasherk'', Some (OtherError ''city lookup failed''))"
    "LookupAddr staleServer = Some staleLookupAddr"
    "staleLookupAddr ?ip = (''localhost'', Some (OtherError ''lookup failed''))"
    by (simp_all add: staleServer_def staleDb_def staleLookupAddr_def)
  have dec: "iputil_ToDecimal ipv4_packages ?ip = 3221225985"
    "MarshalText ipv4_packages ?ip = Inr ''192.0.2.1''"
    by (simp_all add: eval_defs)
  have js: "json_object [(''ip'', json_string ''192.0.2.1''), (''ip_decimal'', fmt_d 3221225985)] =
     ''{'' @ [dquote] @ ''ip'' @ [dquote] @ '':'' @ [dquote] @ ''192.0.2.1'' @ [dquote]
            @ '','' @ [dquote] @ ''ip_decimal'' @ [dquote] @ '':3221225985}''"
    by (simp add: stdlib_defs)
  from newResponse_fails_only_on_address
         [of ipv4_packages degradedServer ?r "Errorf ''could not parse IP: unknown''" ?ip]
       ip fails dec js
  have "newResponse ipv4_packages degradedServer ?r =
     (\<lparr>IP = ?ip, IPDecimal = 3221225985, Country = [],
       CountryISO = [], City = [], Hostname = []\<rparr>, None)
   \<and> json_Marshal_Response ipv4_packages (fst (newResponse ipv4_packages degradedServer ?r)) =
       Inr (''{'' @ [dquote] @ ''ip'' @ [dquote] @ '':'' @ [dquote] @ ''192.0.2.1'' @ [dquote]
            @ '','' @ [dquote] @ ''ip_decimal'' @ [dquote] @ '':3221225985}'')"
    by (simp add: stdlib_defs)
  moreover
  from newResponse_fails_only_on_address
         [of ipv4_packages degradedServer ?r' "Errorf ''could not parse IP: unknown''"] bad
  have "newResponse ipv4_packages degradedServer ?r' =
       (zeroResponse, Some (Errorf ''could not parse IP: unknown''))"
    by simp
  moreover
  from newResponse_fails_only_on_address
         [where pk = ipv4_packages and s = staleServer and r = ?r and ip = ?ip
            and country = "\<lparr>Name = ''Elbonia'', ISO = ''EB''\<rparr>"
            and ?e1.0 = "Some (OtherError ''country lookup failed'')"
            and city = "''Bornyasherk''" and ?e2.0 = "Some (OtherError ''city lookup failed'')"
            and hostname = "''localhost''" and ?e3.0 = "Some (OtherError ''lookup failed'')"]
       ip stale dec
  have "newResponse ipv4_packages staleServer ?r =
       (\<lparr>IP = ?ip, IPDecimal = 3221225985, Country = ''Elbonia'',
         CountryISO = ''EB'', City = ''Bornyasherk'', Hostname = ''localhost''\<rparr>, None)"
    by simp
  ultimately show ?thesis by blast
qed

text \<open>
  Claim C3 as stated fails: the database and the reverse lookup of this server fail on
  every address and return a value with the error; \<open>newResponse\<close> drops the errors and
  keeps the values, so the fields are not empty.
\<close>

theorem newResponse_keeps_failed_values:
  "snd (db_Country (db staleServer) (v4InV6Prefix @ [192, 0, 2, 1])) =
     Some (OtherError ''country lookup failed'')
   \<and> snd (db_City (db staleServer) (v4InV6Prefix @ [192, 0, 2, 1])) =
       Some (OtherError ''city lookup failed'')
   \<and> map_option (\<lambda>lookup. snd (lookup (v4InV6Prefix @ [192, 0, 2, 1]))) (LookupAddr staleServer) =
       Some (Some (OtherError ''lookup failed''))
   \<and> newResponse ipv4_packages staleServer (getRequest ''/json'' [] ''192.0.2.1:4711'') =
       (\<lparr>IP = v4InV6Prefix @ [192, 0, 2, 1], IPDecimal = 3221225985, Country = ''Elbonia'',
         CountryISO = ''EB'', City = ''Bornyasherk'', Hostname = ''localhost''\<rparr>, None)"
  by (simp add: eval_defs)

section \<open>Failures to resolve the caller's address\<close>

text \<open>
  Every handler but \<open>PortHandler\<close> turns a failure of \<open>ipFromRequest\<close> into an internal
  server error.
\<close>

lemma address_failure_is_internal:
  assumes "ipFromRequest pk (IPHeader s) r = Inl err"
  shows "CLIHandler pk s w r = Inr (w, Some (internalServerError (Some err)))"
    and "CLICountryHandler pk s w r = Inr (w, Some (internalServerError (Some err)))"
    and "CLICountryISOHandler pk s w r = Inr (w, Some (internalServerError (Some err)))"
    and "CLICityHandler pk s w r = Inr (w, Some (internalServerError (Some err)))"
    and "JSONHandler pk s w r = Inr (w, Some (AsJSON (internalServerError (Some err))))"
    and "DefaultHandler pk s w r = Inr (w, Some (internalServerError (Some err)))"
  using assms
  by (simp_all add: CLIHandler_def CLICountryHandler_def CLICountryISOHandler_def
      CLICityHandler_def JSONHandler_def DefaultHandler_def newResponse_def)

lemma internalServerError_code:
  "Code (internalServerError e) = 500" "Code (AsJSON (internalServerError e)) = 500"
  by (simp_all add: error_defs)

text \<open>
  \<open>PortHandler\<close> wraps every error of \<open>newPortResponse\<close> in \<open>badRequest\<close>, the address
  error too, and reports it as an invalid port.
\<close>

lemma PortHandler_address_failure:
  assumes "numeric (portSegment r)" and "1 \<le> decimalValue (portSegment r)"
    and "decimalValue (portSegment r) \<le> 65355"
    and "ipFromRequest pk (IPHeader s) r = Inl err"
  shows "PortHandler pk s w r =
           Inr (w, Some \<lparr>Error = Some err,
                         Message = ''Invalid port: '' @ fmt_d (decimalValue (portSegment r)),
                         Code = 400, ContentType = jsonMediaType\<rparr>)"
  using newPortResponse_accepts [OF assms(1-3), of pk s] assms(4)
  by (simp add: PortHandler_def portOnly_def error_defs)

text \<open>
  Claim C4, evaluated where the code departs from it: \<open>GET /port/80\<close> with the header
  \<open>X-Real-IP: unknown\<close>. The port is valid and the caller's address does not parse;
  \<open>PortHandler\<close> answers with the request error 400 and the message \<open>Invalid port: 80\<close>,
  while \<open>CLIHandler\<close> on the same request answers with the internal error 500.
\<close>

theorem PortHandler_unparseable_address:
  "PortHandler ipv4_packages testServer newWriter
     (getRequest ''/port/80'' [(''X-Real-IP'', ''unknown'')] ''192.0.2.1:4711'') =
     Inr (newWriter,
          Some \<lparr>Error = Some (Errorf ''could not parse IP: unknown''),
                Message = ''Invalid port: 80'', Code = 400,
                ContentType = ''application/json''\<rparr>)
   \<and> CLIHandler ipv4_packages testServer newWriter
        (getRequest ''/port/80'' [(''X-Real-IP'', ''unknown'')] ''192.0.2.1:4711'') =
       Inr (newWriter, Some (internalServerError (Some (Errorf ''could not parse IP: unknown''))))
   \<and> Code (internalServerError (Some (Errorf ''could not parse IP: unknown''))) = 500"
  by (simp add: eval_defs)

section \<open>The caller's address\<close>

lemma ipFromRequest_header:
  assumes "Header_Get (Header r) header \<noteq> []"
  shows "ipFromRequest pk header r =
           (case net_ParseIP pk (Header_Get (Header r) header) of
              None \<Rightarrow> Inl (Errorf (''could not parse IP: '' @ Header_Get (Header r) header))
            | Some ip \<Rightarrow> Inr ip)"
  using assms by (simp add: ipFromRequest_def Let_def)

lemma ipFromRequest_remote:
  assumes "Header_Get (Header r) header = []"
  shows "ipFromRequest pk header r =
           (case net_SplitHostPort pk (RemoteAddr r) of
              Inl err \<Rightarrow> Inl err
            | Inr (host, port) \<Rightarrow>
                (case net_ParseIP pk host of
                   None \<Rightarrow> Inl (Errorf (''could not parse IP: '' @ host))
                 | Some ip \<Rightarrow> Inr ip))"
  using assms by (simp add: ipFromRequest_def Let_def split: sum.splits prod.splits)

text \<open>
  Claim C5, as amended. When \<open>Header.Get\<close> gives a non-empty value for the configured
  header, \<open>ipFromRequest\<close> parses that value and nothing else: the result does not depend
  on the remote address. When it gives the empty string (the header is absent, or present
  with an empty value), \<open>ipFromRequest\<close> splits the remote address and parses its host.
  It returns an error exactly when the text chosen in this way does not parse, or the
  remote address does not split.
\<close>

theorem ipFromRequest_source:
  "(Header_Get (Header r) header \<noteq> [] \<longrightarrow>
      ipFromRequest pk header r =
        (case net_ParseIP pk (Header_Get (Header r) header) of
           None \<Rightarrow> Inl (Errorf (''could not parse IP: '' @ Header_Get (Header r) header))
         | Some ip \<Rightarrow> Inr ip)
      \<and> ipFromRequest pk header (r\<lparr>RemoteAddr := a\<rparr>) = ipFromRequest pk header r)
   \<and> (Header_Get (Header r) header = [] \<longrightarrow>
        ipFromRequest pk header r =
          (case net_SplitHostPort pk (RemoteAddr r) of
             Inl err \<Rightarrow> Inl err
           | Inr (host, port) \<Rightarrow>
               (case net_ParseIP pk host of
                  None \<Rightarrow> Inl (Errorf (''could not parse IP: '' @ host))
                | Some ip \<Rightarrow> Inr ip)))
   \<and> (isl (ipFromRequest pk header r) \<longleftrightarrow>
        (if Header_Get (Header r) header \<noteq> []
         then net_ParseIP pk (Header_Get (Header r) header) = None
         else (case net_SplitHostPort pk (RemoteAddr r) of
                 Inl err \<Rightarrow> True
               | Inr (host, port) \<Rightarrow> net_ParseIP pk host = None)))"
proof (intro conjI impI)
  assume h: "Header_Get (Header r) header \<noteq> []"
  then show "ipFromRequest pk header r =
        (case net_ParseIP pk (Header_Get (Header r) header) of
           None \<Rightarrow> Inl (Errorf (''could not parse IP: '' @ Header_Get (Header r) header))
         | Some ip \<Rightarrow> Inr ip)"
    by (rule ipFromRequest_header)
  from h show "ipFromRequest pk header (r\<lparr>RemoteAddr := a\<rparr>) = ipFromRequest pk header r"
    by (simp add: ipFromRequest_def Let_def)
next
  assume "Header_Get (Header r) header = []"
  then show "ipFromRequest pk header r =
          (case net_SplitHostPort pk (RemoteAddr r) of
             Inl err \<Rightarrow> Inl err
           | Inr (host, port) \<Rightarrow>
               (case net_ParseIP pk host of
                  None \<Rightarrow> Inl (Errorf (''could not parse IP: '' @ host))
                | Some ip \<Rightarrow> Inr ip))"
    by (rule ipFromRequest_remote)
next
  show "isl (ipFromRequest pk header r) \<longleftrightarrow>
        (if Header_Get (Header r) header \<noteq> []
         then net_ParseIP pk (Header_Get (Header r) header) = None
         else (case net_SplitHostPort pk (RemoteAddr r) of
                 Inl err \<Rightarrow> True
               | Inr (host, port) \<Rightarrow> net_ParseIP pk host = None))"
  proof (cases "Header_Get (Header r) header = []")
    case True
    then show ?thesis
      by (simp add: ipFromRequest_remote split: sum.splits prod.splits option.splits)
  next
    case False
    then show ?thesis
      by (simp add: ipFromRequest_header split: option.splits)
  qed
qed

text \<open>
  A header that parses beside a remote address that does not, a header that does not parse
  beside a remote address that does, and no header with a good and a bad remote address.
\<close>

theorem ipFromRequest_source_witness:
  "ipFromRequest ipv4_packages ''X-Real-IP''
     (getRequest ''/'' [(''X-Real-IP'', ''198.51.100.7'')] ''not an address'') =
     Inr (v4InV6Prefix @ [198, 51, 100, 7])
   \<and> ipFromRequest ipv4_packages ''X-Real-IP''
        (getRequest ''/'' [(''X-Real-IP'', ''unknown'')] ''192.0.2.1:4711'') =
       Inl (Errorf ''could not parse IP: unknown'')
   \<and> ipFromRequest ipv4_packages ''X-Real-IP'' (getRequest ''/'' [] ''192.0.2.1:4711'') =
       Inr (v4InV6Prefix @ [192, 0, 2, 1])
   \<and> ipFromRequest ipv4_packages ''X-Real-IP'' (getRequest ''/'' [] ''192.0.2.1'') =
       Inl (AddrError ''missing port in address'' ''192.0.2.1'')"
proof -
  let ?r1 = "getRequest ''/'' [(''X-Real-IP'', ''198.51.100.7'')] ''not an address''"
  let ?r2 = "getRequest ''/'' [(''X-Real-IP'', ''unknown'')] ''192.0.2.1:4711''"
  let ?r3 = "getRequest ''/'' [] ''192.0.2.1:4711''"
  let ?r4 = "getRequest ''/'' [] ''192.0.2.1''"
  have g: "Header_Get (Header ?r1) ''X-Real-IP'' = ''198.51.100.7''"
    "Header_Get (Header ?r2) ''X-Real-IP'' = ''unknown''"
    "Header_Get (Header ?r3) ''X-Real-IP'' = []"
    "Header_Get (Header ?r4) ''X-Real-IP'' = []"
    by (simp_all add: getRequest_def stdlib_defs)
  have p: "net_ParseIP ipv4_packages ''198.51.100.7'' = Some (v4InV6Prefix @ [198, 51, 100, 7])"
    "net_ParseIP ipv4_packages ''unknown'' = None"
    "net_ParseIP ipv4_packages ''192.0.2.1'' = Some (v4InV6Prefix @ [192, 0, 2, 1])"
    "net_SplitHostPort ipv4_packages (RemoteAddr ?r3) = Inr (''192.0.2.1'', ''4711'')"
    "net_SplitHostPort ipv4_packages (RemoteAddr ?r4) =
       Inl (AddrError ''missing port in address'' ''192.0.2.1'')"
    by (simp_all add: instance_defs isDigit_def digitValue_def)
  from ipFromRequest_source [of ?r1 "''X-Real-IP''" ipv4_packages] g p
  have a: "ipFromRequest ipv4_packages ''X-Real-IP'' ?r1 = Inr (v4InV6Prefix @ [198, 51, 100, 7])"
    by simp
  from ipFromRequest_source [of ?r2 "''X-Real-IP''" ipv4_packages] g p
  have b: "ipFromRequest ipv4_packages ''X-Real-IP'' ?r2 = Inl (Errorf ''could not parse IP: unknown'')"
    by simp
  from ipFromRequest_source [of ?r3 "''X-Real-IP''" ipv4_packages] g p
  have c: "ipFromRequest ipv4_packages ''X-Real-IP'' ?r3 = Inr (v4InV6Prefix @ [192, 0, 2, 1])"
    by simp
  from ipFromRequest_source [of ?r4 "''X-Real-IP''" ipv4_packages] g p
  have d: "ipFromRequest ipv4_packages ''X-Real-IP'' ?r4 =
             Inl (AddrError ''missing port in address'' ''192.0.2.1'')"
    by simp
  from a b c d show ?thesis by blast
qed

text \<open>
  Claim C5 as stated fails: the request carries the header \<open>X-Real-IP\<close> with an empty
  value, which is not an address, and \<open>ipFromRequest\<close> answers with the host of the remote
  address instead of failing on the header.
\<close>

theorem ipFromRequest_empty_header:
  "Header (getRequest ''/'' [(''X-Real-IP'', [])] ''192.0.2.1:4711'')
     (CanonicalMIMEHeaderKey ''X-Real-IP'') = Some [[]]
   \<and> net_ParseIP ipv4_packages [] = None
   \<and> ipFromRequest ipv4_packages ''X-Real-IP''
        (getRequest ''/'' [(''X-Real-IP'', [])] ''192.0.2.1:4711'') =
       Inr (v4InV6Prefix @ [192, 0, 2, 1])"
  by (simp add: eval_defs)

section \<open>Requests that match no route\<close>

lemmas router_defs = Handler_router_def Route_def Route_Header_def Route_MatcherFunc_def
  RoutePrefix_def onLastRoute_def NewRouter_def Let_def

lemma canonical_accept: "CanonicalMIMEHeaderKey ''accept'' = ''Accept''"
  "CanonicalMIMEHeaderKey ''Accept'' = ''Accept''"
  by (simp_all add: CanonicalMIMEHeaderKey_def validHeaderFieldByte_def lowerLetters_def
      upperLetters_def Let_def)

lemma Header_Get_accept: "Header_Get h ''accept'' = Header_Get h ''Accept''"
  by (simp add: Header_Get_def canonical_accept)

lemma json_string_404:
  "json_string ''404 page not found'' = [dquote] @ ''404 page not found'' @ [dquote]"
  by (simp add: json_string_def escapeByte_def htmlSafe_def dquote_def backslash_def)

lemma NotFoundHandler_eq:
  "NotFoundHandler w r =
     Inr (w, Some \<lparr>Error = None, Message = ''404 page not found'', Code = 404,
                   ContentType = (if Header_Get (Header r) ''Accept'' = jsonMediaType
                                  then jsonMediaType else [])\<rparr>)"
  by (simp add: NotFoundHandler_def Header_Get_accept error_defs Let_def)

lemma dispatch_unmatched:
  "find (\<lambda>route. matches route r) (routes rt) = None \<Longrightarrow> dispatch rt w r = NotFoundHandler w r"
  by (simp add: dispatch_def)

text \<open>
  Claim C6. \<open>NotFoundHandler\<close> returns the not-found error (status 404) with the message
  \<open>404 page not found\<close>; the error is marked as JSON exactly when the value of the
  request's \<open>Accept\<close> header equals \<open>application/json\<close>. A request that matches no route
  of a router is answered by this handler through the adapter: with the JSON object whose
  field \<open>error\<close> holds the message when the header equals the JSON media type, and with
  the message itself otherwise.
\<close>

theorem NotFoundHandler_404:
  "(Header_Get (Header r) ''Accept'' = ''application/json'' \<longrightarrow>
      NotFoundHandler w r =
        Inr (w, Some \<lparr>Error = None, Message = ''404 page not found'', Code = 404,
                      ContentType = ''application/json''\<rparr>)
      \<and> IsJSON \<lparr>Error = None, Message = ''404 page not found'', Code = 404,
                ContentType = ''application/json''\<rparr>)
   \<and> (Header_Get (Header r) ''Accept'' \<noteq> ''application/json'' \<longrightarrow>
        NotFoundHandler w r =
          Inr (w, Some \<lparr>Error = None, Message = ''404 page not found'', Code = 404,
                        ContentType = []\<rparr>)
        \<and> \<not> IsJSON \<lparr>Error = None, Message = ''404 page not found'', Code = 404,
                    ContentType = []\<rparr>)
   \<and> (find (\<lambda>route. matches route r) (routes rt) = None \<and> sent w = None \<longrightarrow>
        Router_Handler rt w r =
          Inr (if Header_Get (Header r) ''Accept'' = ''application/json''
               then w\<lparr>HeaderMap := (HeaderMap w)(''Content-Type'' \<mapsto> [''application/json'']),
                      sent := Some (404, (HeaderMap w)(''Content-Type'' \<mapsto> [''application/json''])),
                      Body := Body w @ ''{'' @ [dquote] @ ''error'' @ [dquote] @ '':'' @ [dquote]
                                @ ''404 page not found'' @ [dquote] @ ''}''\<rparr>
               else w\<lparr>sent := Some (404, HeaderMap w),
                      Body := Body w @ ''404 page not found''\<rparr>))"
proof (intro conjI impI)
  assume "Header_Get (Header r) ''Accept'' = ''application/json''"
  then show "NotFoundHandler w r =
        Inr (w, Some \<lparr>Error = None, Message = ''404 page not found'', Code = 404,
                      ContentType = ''application/json''\<rparr>)"
    by (simp add: NotFoundHandler_eq jsonMediaType_def)
  show "IsJSON \<lparr>Error = None, Message = ''404 page not found'', Code = 404,
                ContentType = ''application/json''\<rparr>"
    by (simp add: IsJSON_def jsonMediaType_def)
next
  assume "Header_Get (Header r) ''Accept'' \<noteq> ''application/json''"
  then show "NotFoundHandler w r =
          Inr (w, Some \<lparr>Error = None, Message = ''404 page not found'', Code = 404,
                        ContentType = []\<rparr>)"
    by (simp add: NotFoundHandler_eq jsonMediaType_def)
  show "\<not> IsJSON \<lparr>Error = None, Message = ''404 page not found'', Code = 404,
                    ContentType = []\<rparr>"
    by (simp add: IsJSON_def jsonMediaType_def)
next
  assume h: "find (\<lambda>route. matches route r) (routes rt) = None \<and> sent w = None"
  then have d: "dispatch rt w r = NotFoundHandler w r" by (simp add: dispatch_unmatched)
  show "Router_Handler rt w r =
          Inr (if Header_Get (Header r) ''Accept'' = ''application/json''
               then w\<lparr>HeaderMap := (HeaderMap w)(''Content-Type'' \<mapsto> [''application/json'']),
                      sent := Some (404, (HeaderMap w)(''Content-Type'' \<mapsto> [''application/json''])),
                      Body := Body w @ ''{'' @ [dquote] @ ''error'' @ [dquote] @ '':'' @ [dquote]
                                @ ''404 page not found'' @ [dquote] @ ''}''\<rparr>
               else w\<lparr>sent := Some (404, HeaderMap w),
                      Body := Body w @ ''404 page not found''\<rparr>)"
  proof (cases "Header_Get (Header r) ''Accept'' = ''application/json''")
    case True
    with h d show ?thesis
      using ServeHTTP_error [of "dispatch rt" w r w] error_on_fresh_writer [of w]
      by (simp add: Router_Handler_def NotFoundHandler_eq jsonMediaType_def IsJSON_def
          json_string_404)
  next
    case False
    with h d show ?thesis
      using ServeHTTP_error [of "dispatch rt" w r w] error_on_fresh_writer [of w]
      by (simp add: Router_Handler_def NotFoundHandler_eq jsonMediaType_def IsJSON_def)
  qed
qed

text \<open>The path \<open>/nonexistent\<close> on the server's router, asked for JSON and for plain text.\<close>

theorem NotFoundHandler_404_witness:
  "Handler ipv4_packages testServer newWriter
     (getRequest ''/nonexistent'' [(''Accept'', ''application/json'')] ''192.0.2.1:4711'') =
     Inr \<lparr>HeaderMap = [''Content-Type'' \<mapsto> [''application/json'']],
          sent = Some (404, [''Content-Type'' \<mapsto> [''application/json'']]),
          Body = ''{'' @ [dquote] @ ''error'' @ [dquote] @ '':'' @ [dquote]
                   @ ''404 page not found'' @ [dquote] @ ''}''\<rparr>
   \<and> Handler ipv4_packages testServer newWriter
        (getRequest ''/nonexistent'' [(''Accept'', ''text/plain'')] ''192.0.2.1:4711'') =
       Inr \<lparr>HeaderMap = Map.empty, sent = Some (404, Map.empty),
            Body = ''404 page not found''\<rparr>"
proof -
  let ?r1 = "getRequest ''/nonexistent'' [(''Accept'', ''application/json'')] ''192.0.2.1:4711''"
  let ?r2 = "getRequest ''/nonexistent'' [(''Accept'', ''text/plain'')] ''192.0.2.1:4711''"
  let ?rt = "Handler_router ipv4_packages testServer"
  have none: "find (\<lambda>route. matches route ?r1) (routes ?rt) = None"
    "find (\<lambda>route. matches route ?r2) (routes ?rt) = None"
    by (simp_all add: router_defs matches_def pathMatches_def getRequest_def testServer_def
        testDb_def)
  have acc: "Header_Get (Header ?r1) ''Accept'' = ''application/json''"
    "Header_Get (Header ?r2) ''Accept'' = ''text/plain''"
    by (simp_all add: getRequest_def stdlib_defs)
  from NotFoundHandler_404 [of ?r1 newWriter ?rt] none acc
  have a: "Handler ipv4_packages testServer newWriter ?r1 =
     Inr \<lparr>HeaderMap = [''Content-Type'' \<mapsto> [''application/json'']],
          sent = Some (404, [''Content-Type'' \<mapsto> [''application/json'']]),
          Body = ''{'' @ [dquote] @ ''error'' @ [dquote] @ '':'' @ [dquote]
                   @ ''404 page not found'' @ [dquote] @ ''}''\<rparr>"
    by (simp add: Handler_def newWriter_def)
  from NotFoundHandler_404 [of ?r2 newWriter ?rt] none acc
  have b: "Handler ipv4_packages testServer newWriter ?r2 =
       Inr \<lparr>HeaderMap = Map.empty, sent = Some (404, Map.empty),
            Body = ''404 page not found''\<rparr>"
    by (simp add: Handler_def newWriter_def)
  from a b show ?thesis by blast
qed

section \<open>The port probe\<close>

lemma newPortResponse_probe:
  assumes "numeric (portSegment r)" and "1 \<le> decimalValue (portSegment r)"
    and "decimalValue (portSegment r) \<le> 65355"
    and "ipFromRequest pk (IPHeader s) r = Inr ip" and "LookupPort s = Some probe"
  shows "newPortResponse pk s r =
           Inr (\<lparr>IP' = ip, Port = decimalValue (portSegment r),
                 Reachable = (probe ip (decimalValue (portSegment r)) = None)\<rparr>, None)"
  using newPortResponse_accepts [OF assms(1-3), of pk s] assms(4,5) by simp

text \<open>
  Claim C7. For a request whose trailing path segment is a numeral that passes the
  validation of \<open>newPortResponse\<close> and whose caller address parses, on a server with a
  port probe, \<open>newPortResponse\<close> returns no error and a \<open>PortResponse\<close> whose
  \<open>Reachable\<close> holds exactly when the probe returned nil. \<open>PortHandler\<close> then writes
  the encoding of that response. Another probe that agrees on success or failure gives the
  same results: the error of the probe does not reach the response.
\<close>

theorem newPortResponse_reachable:
  "numeric (portSegment r) \<and> 1 \<le> decimalValue (portSegment r)
     \<and> decimalValue (portSegment r) \<le> 65355
     \<and> ipFromRequest pk (IPHeader s) r = Inr ip \<and> LookupPort s = Some probe \<longrightarrow>
   newPortResponse pk s r =
     Inr (\<lparr>IP' = ip, Port = decimalValue (portSegment r),
           Reachable = (probe ip (decimalValue (portSegment r)) = None)\<rparr>, None)
   \<and> PortHandler pk s w r =
       (case json_Marshal_PortResponse pk
               \<lparr>IP' = ip, Port = decimalValue (portSegment r),
                Reachable = (probe ip (decimalValue (portSegment r)) = None)\<rparr> of
          Inl err \<Rightarrow> Inr (w, Some (AsJSON (internalServerError (Some err))))
        | Inr b \<Rightarrow> Inr (Write b (Header_Set ''Content-Type'' jsonMediaType w), None))
   \<and> ((probe' ip (decimalValue (portSegment r)) = None)
          = (probe ip (decimalValue (portSegment r)) = None) \<longrightarrow>
        newPortResponse pk (s\<lparr>LookupPort := Some probe'\<rparr>) r = newPortResponse pk s r
        \<and> PortHandler pk (s\<lparr>LookupPort := Some probe'\<rparr>) w r = PortHandler pk s w r)"
proof (intro impI)
  assume h: "numeric (portSegment r) \<and> 1 \<le> decimalValue (portSegment r)
     \<and> decimalValue (portSegment r) \<le> 65355
     \<and> ipFromRequest pk (IPHeader s) r = Inr ip \<and> LookupPort s = Some probe"
  then have n: "newPortResponse pk s r =
     Inr (\<lparr>IP' = ip, Port = decimalValue (portSegment r),
           Reachable = (probe ip (decimalValue (portSegment r)) = None)\<rparr>, None)"
    by (simp add: newPortResponse_probe)
  have p: "PortHandler pk s w r =
       (case json_Marshal_PortResponse pk
               \<lparr>IP' = ip, Port = decimalValue (portSegment r),
                Reachable = (probe ip (decimalValue (portSegment r)) = None)\<rparr> of
          Inl err \<Rightarrow> Inr (w, Some (AsJSON (internalServerError (Some err))))
        | Inr b \<Rightarrow> Inr (Write b (Header_Set ''Content-Type'' jsonMediaType w), None))"
    by (simp add: PortHandler_def n)
  have q: "newPortResponse pk (s\<lparr>LookupPort := Some probe'\<rparr>) r = newPortResponse pk s r
        \<and> PortHandler pk (s\<lparr>LookupPort := Some probe'\<rparr>) w r = PortHandler pk s w r"
    if same: "(probe' ip (decimalValue (portSegment r)) = None)
          = (probe ip (decimalValue (portSegment r)) = None)"
  proof -
    from h have "newPortResponse pk (s\<lparr>LookupPort := Some probe'\<rparr>) r =
      Inr (\<lparr>IP' = ip, Port = decimalValue (portSegment r),
           Reachable = (probe' ip (decimalValue (portSegment r)) = None)\<rparr>, None)"
      by (simp add: newPortResponse_probe)
    with n same have "newPortResponse pk (s\<lparr>LookupPort := Some probe'\<rparr>) r = newPortResponse pk s r"
      by simp
    then show ?thesis by (simp add: PortHandler_def)
  qed
  from n p q show "newPortResponse pk s r =
     Inr (\<lparr>IP' = ip, Port = decimalValue (portSegment r),
           Reachable = (probe ip (decimalValue (portSegment r)) = None)\<rparr>, None)
   \<and> PortHandler pk s w r =
       (case json_Marshal_PortResponse pk
               \<lparr>IP' = ip, Port = decimalValue (portSegment r),
                Reachable = (probe ip (decimalValue (portSegment r)) = None)\<rparr> of
          Inl err \<Rightarrow> Inr (w, Some (AsJSON (internalServerError (Some err))))
        | Inr b \<Rightarrow> Inr (Write b (Header_Set ''Content-Type'' jsonMediaType w), None))
   \<and> ((probe' ip (decimalValue (portSegment r)) = None)
          = (probe ip (decimalValue (portSegment r)) = None) \<longrightarrow>
        newPortResponse pk (s\<lparr>LookupPort := Some probe'\<rparr>) r = newPortResponse pk s r
        \<and> PortHandler pk (s\<lparr>LookupPort := Some probe'\<rparr>) w r = PortHandler pk s w r)"
    by blast
qed

text \<open>Port 8080, which the probe finds open, and port 80, where it reports an error.\<close>

theorem newPortResponse_reachable_witness:
  "newPortResponse ipv4_packages testServer (getRequest ''/port/8080'' [] ''192.0.2.1:4711'') =
     Inr (\<lparr>IP' = v4InV6Prefix @ [192, 0, 2, 1], Port = 8080, Reachable = True\<rparr>, None)
   \<and> newPortResponse ipv4_packages testServer (getRequest ''/port/80'' [] ''192.0.2.1:4711'') =
       Inr (\<lparr>IP' = v4InV6Prefix @ [192, 0, 2, 1], Port = 80, Reachable = False\<rparr>, None)
   \<and> PortHandler ipv4_packages testServer newWriter
        (getRequest ''/port/80'' [] ''192.0.2.1:4711'') =
       Inr (\<lparr>HeaderMap = [''Content-Type'' \<mapsto> [''application/json'']],
             sent = Some (200, [''Content-Type'' \<mapsto> [''application/json'']]),
             Body = ''{'' @ [dquote] @ ''ip'' @ [dquote] @ '':'' @ [dquote] @ ''192.0.2.1''
                      @ [dquote] @ '','' @ [dquote] @ ''port'' @ [dquote] @ '':80,''
                      @ [dquote] @ ''reachable'' @ [dquote] @ '':false}''\<rparr>, None)"
proof -
  let ?r1 = "getRequest ''/port/8080'' [] ''192.0.2.1:4711''"
  let ?r2 = "getRequest ''/port/80'' [] ''192.0.2.1:4711''"
  let ?ip = "v4InV6Prefix @ [192, 0, 2, 1]"
  have seg: "portSegment ?r1 = ''8080''" "portSegment ?r2 = ''80''"
    by (simp_all add: portSegment_def getRequest_def stdlib_defs)
  have num: "numeric ''8080''" "decimalValue ''8080'' = 8080" "numeric ''80''"
    "decimalValue ''80'' = 80"
    by (simp_all add: numeric_def decimalValue_def isDigit_def digitValue_def)
  have ip: "ipFromRequest ipv4_packages (IPHeader testServer) ?r1 = Inr ?ip"
    "ipFromRequest ipv4_packages (IPHeader testServer) ?r2 = Inr ?ip"
    by (simp_all add: eval_defs)
  have probe: "LookupPort testServer = Some testLookupPort"
    "testLookupPort ?ip 8080 = None"
    "testLookupPort ?ip 80 = Some (OtherError ''connection refused'')"
    by (simp_all add: testServer_def testLookupPort_def)
  have js: "json_Marshal_PortResponse ipv4_packages \<lparr>IP' = ?ip, Port = 80, Reachable = False\<rparr> =
      Inr (''{'' @ [dquote] @ ''ip'' @ [dquote] @ '':'' @ [dquote] @ ''192.0.2.1''
                      @ [dquote] @ '','' @ [dquote] @ ''port'' @ [dquote] @ '':80,''
                      @ [dquote] @ ''reachable'' @ [dquote] @ '':false}'')"
    by (simp add: eval_defs)
  from newPortResponse_reachable [of ?r1 ipv4_packages testServer ?ip testLookupPort] seg num ip probe
  have a: "newPortResponse ipv4_packages testServer ?r1 =
     Inr (\<lparr>IP' = ?ip, Port = 8080, Reachable = True\<rparr>, None)"
    by simp
  from newPortResponse_reachable [of ?r2 ipv4_packages testServer ?ip testLookupPort newWriter]
    seg num ip probe js
  have b: "newPortResponse ipv4_packages testServer ?r2 =
       Inr (\<lparr>IP' = ?ip, Port = 80, Reachable = False\<rparr>, None)
   \<and> PortHandler ipv4_packages testServer newWriter ?r2 =
       Inr (\<lparr>HeaderMap = [''Content-Type'' \<mapsto> [''application/json'']],
             sent = Some (200, [''Content-Type'' \<mapsto> [''application/json'']]),
             Body = ''{'' @ [dquote] @ ''ip'' @ [dquote] @ '':'' @ [dquote] @ ''192.0.2.1''
                      @ [dquote] @ '','' @ [dquote] @ ''port'' @ [dquote] @ '':80,''
                      @ [dquote] @ ''reachable'' @ [dquote] @ '':false}''\<rparr>, None)"
    by (simp add: newWriter_def stdlib_defs)
  from a b show ?thesis by blast
qed

section \<open>The plain-text address\<close>

lemma Fprintln_body: "Body (Fprintln w s) = Body w @ s @ [CHR 0x0A]"
  by (simp add: Fprintln_def Write_def WriteHeader_def Let_def)

lemma Fprintln_fresh:
  "sent w = None \<Longrightarrow>
   Fprintln w s = w\<lparr>sent := Some (200, HeaderMap w), Body := Body w @ s @ [CHR 0x0A]\<rparr>"
  by (simp add: Fprintln_def Write_def WriteHeader_def Let_def)

text \<open>
  Claim C8. When the caller's address parses to \<open>A\<close>, \<open>CLIHandler\<close> returns nil after
  one write: the text of \<open>A\<close> followed by a line feed, appended to the body; on a writer
  not written to before, that is the whole response, with status 200. The handler reads
  nothing of the server but the name of the header: with another template, reverse
  lookup, port probe and database its result is the same.
\<close>

theorem CLIHandler_writes_address:
  "(ipFromRequest pk (IPHeader s) r = Inr ip \<longrightarrow>
      CLIHandler pk s w r = Inr (Fprintln w (IP_String pk ip), None)
      \<and> Body (Fprintln w (IP_String pk ip)) = Body w @ IP_String pk ip @ [CHR 0x0A]
      \<and> (sent w = None \<longrightarrow>
           Fprintln w (IP_String pk ip) =
             w\<lparr>sent := Some (200, HeaderMap w),
               Body := Body w @ IP_String pk ip @ [CHR 0x0A]\<rparr>))
   \<and> CLIHandler pk (s\<lparr>Template := t, LookupAddr := la, LookupPort := lp, db := d\<rparr>) w r =
       CLIHandler pk s w r"
proof (intro conjI impI)
  assume "ipFromRequest pk (IPHeader s) r = Inr ip"
  then show "CLIHandler pk s w r = Inr (Fprintln w (IP_String pk ip), None)"
    by (simp add: CLIHandler_def)
next
  show "Body (Fprintln w (IP_String pk ip)) = Body w @ IP_String pk ip @ [CHR 0x0A]"
    by (rule Fprintln_body)
next
  assume "sent w = None"
  then show "Fprintln w (IP_String pk ip) =
             w\<lparr>sent := Some (200, HeaderMap w),
               Body := Body w @ IP_String pk ip @ [CHR 0x0A]\<rparr>"
    by (rule Fprintln_fresh)
next
  show "CLIHandler pk (s\<lparr>Template := t, LookupAddr := la, LookupPort := lp, db := d\<rparr>) w r =
       CLIHandler pk s w r"
    by (simp add: CLIHandler_def)
qed

text \<open>The path \<open>/ip\<close> on the test server and on the server whose lookups fail.\<close>

theorem CLIHandler_writes_address_witness:
  "CLIHandler ipv4_packages testServer newWriter (getRequest ''/ip'' [] ''192.0.2.1:4711'') =
     Inr (\<lparr>HeaderMap = Map.empty, sent = Some (200, Map.empty),
           Body = ''192.0.2.1'' @ [CHR 0x0A]\<rparr>, None)
   \<and> CLIHandler ipv4_packages degradedServer newWriter
        (getRequest ''/ip'' [] ''192.0.2.1:4711'') =
       CLIHandler ipv4_packages testServer newWriter (getRequest ''/ip'' [] ''192.0.2.1:4711'')"
proof -
  let ?r = "getRequest ''/ip'' [] ''192.0.2.1:4711''"
  let ?ip = "v4InV6Prefix @ [192, 0, 2, 1]"
  have ip: "ipFromRequest ipv4_packages (IPHeader testServer) ?r = Inr ?ip"
    by (simp add: eval_defs)
  have str: "IP_String ipv4_packages ?ip = ''192.0.2.1''"
    by (simp add: eval_defs)
  have deg: "degradedServer =
    testServer\<lparr>Template := Template testServer, LookupAddr := Some failingLookupAddr,
                 LookupPort := LookupPort testServer, db := failingDb\<rparr>"
    by (simp add: degradedServer_def)
  from CLIHandler_writes_address
         [where pk = ipv4_packages and s = testServer and r = ?r and ip = ?ip and w = newWriter]
       ip str
  have a: "CLIHandler ipv4_packages testServer newWriter ?r =
     Inr (\<lparr>HeaderMap = Map.empty, sent = Some (200, Map.empty),
           Body = ''192.0.2.1'' @ [CHR 0x0A]\<rparr>, None)"
    by (simp add: newWriter_def)
  from CLIHandler_writes_address
         [where pk = ipv4_packages and s = testServer and r = ?r and w = newWriter
            and t = "Template testServer" and la = "Some failingLookupAddr"
            and lp = "LookupPort testServer" and d = failingDb] deg
  have b: "CLIHandler ipv4_packages degradedServer newWriter ?r =
       CLIHandler ipv4_packages testServer newWriter ?r"
    by simp
  from a b show ?thesis by blast
qed

section \<open>The routes of the server\<close>

text \<open>
  Claim C9. The routes that \<open>Server.Handler\<close> registers, in order: \<open>GET /\<close> with
  \<open>Accept: application/json\<close> and \<open>GET /json\<close> for \<open>JSONHandler\<close>; \<open>GET /\<close> with the
  predicate \<open>cliMatcher\<close>, \<open>GET /\<close> with \<open>Accept: text/plain\<close> and \<open>GET /ip\<close> for
  \<open>CLIHandler\<close>; \<open>GET /country\<close>, \<open>/country-iso\<close> and \<open>/city\<close>, only when the database
  is not empty; \<open>GET /\<close> for \<open>DefaultHandler\<close>; and \<open>GET\<close> with the path prefix
  \<open>/port/\<close> for \<open>PortHandler\<close>, only when the server has a port probe.
\<close>

theorem Handler_registration_order:
  "routes (Handler_router pk s) =
     [\<lparr>verb = ''GET'', pathRule = Exact ''/'',
       headerMatchers = [(''Accept'', ''application/json'')],
       predicate = None, handler = JSONHandler pk s\<rparr>,
      \<lparr>verb = ''GET'', pathRule = Exact ''/json'', headerMatchers = [],
       predicate = None, handler = JSONHandler pk s\<rparr>,
      \<lparr>verb = ''GET'', pathRule = Exact ''/'', headerMatchers = [],
       predicate = Some (cliMatcher pk), handler = CLIHandler pk s\<rparr>,
      \<lparr>verb = ''GET'', pathRule = Exact ''/'', headerMatchers = [(''Accept'', ''text/plain'')],
       predicate = None, handler = CLIHandler pk s\<rparr>,
      \<lparr>verb = ''GET'', pathRule = Exact ''/ip'', headerMatchers = [],
       predicate = None, handler = CLIHandler pk s\<rparr>]
     @ (if db_IsEmpty (db s) then []
        else [\<lparr>verb = ''GET'', pathRule = Exact ''/country'', headerMatchers = [],
                predicate = None, handler = CLICountryHandler pk s\<rparr>,
              \<lparr>verb = ''GET'', pathRule = Exact ''/country-iso'', headerMatchers = [],
                predicate = None, handler = CLICountryISOHandler pk s\<rparr>,
              \<lparr>verb = ''GET'', pathRule = Exact ''/city'', headerMatchers = [],
                predicate = None, handler = CLICityHandler pk s\<rparr>])
     @ [\<lparr>verb = ''GET'', pathRule = Exact ''/'', headerMatchers = [],
         predicate = None, handler = DefaultHandler pk s\<rparr>]
     @ (if LookupPort s = None then []
        else [\<lparr>verb = ''GET'', pathRule = Prefix ''/port/'', headerMatchers = [],
                predicate = None, handler = PortHandler pk s\<rparr>])"
  by (simp add: router_defs jsonMediaType_def textMediaType_def)

text \<open>
  The ten routes of the test server, and the six of a server with an empty database and
  no port probe.
\<close>

theorem Handler_registration_order_witness:
  "map (\<lambda>route. (verb route, pathRule route, headerMatchers route))
     (routes (Handler_router ipv4_packages testServer)) =
     [(''GET'', Exact ''/'', [(''Accept'', ''application/json'')]),
      (''GET'', Exact ''/json'', []),
      (''GET'', Exact ''/'', []),
      (''GET'', Exact ''/'', [(''Accept'', ''text/plain'')]),
      (''GET'', Exact ''/ip'', []),
      (''GET'', Exact ''/country'', []),
      (''GET'', Exact ''/country-iso'', []),
      (''GET'', Exact ''/city'', []),
      (''GET'', Exact ''/'', []),
      (''GET'', Prefix ''/port/'', [])]
   \<and> map (\<lambda>route. (verb route, pathRule route, headerMatchers route))
         (routes (Handler_router ipv4_packages bareServer)) =
       [(''GET'', Exact ''/'', [(''Accept'', ''application/json'')]),
        (''GET'', Exact ''/json'', []),
        (''GET'', Exact ''/'', []),
        (''GET'', Exact ''/'', [(''Accept'', ''text/plain'')]),
        (''GET'', Exact ''/ip'', []),
        (''GET'', Exact ''/'', [])]"
proof -
  have cfg: "\<not> db_IsEmpty (db testServer)" "LookupPort testServer \<noteq> None"
    "db_IsEmpty (db bareServer)" "LookupPort bareServer = None"
    by (simp_all add: testServer_def bareServer_def testDb_def emptyDb_def)
  from Handler_registration_order [of ipv4_packages testServer] cfg
  have a: "map (\<lambda>route. (verb route, pathRule route, headerMatchers route))
     (routes (Handler_router ipv4_packages testServer)) =
     [(''GET'', Exact ''/'', [(''Accept'', ''application/json'')]),
      (''GET'', Exact ''/json'', []),
      (''GET'', Exact ''/'', []),
      (''GET'', Exact ''/'', [(''Accept'', ''text/plain'')]),
      (''GET'', Exact ''/ip'', []),
      (''GET'', Exact ''/country'', []),
      (''GET'', Exact ''/country-iso'', []),
      (''GET'', Exact ''/city'', []),
      (''GET'', Exact ''/'', []),
      (''GET'', Prefix ''/port/'', [])]"
    by simp
  from Handler_registration_order [of ipv4_packages bareServer] cfg
  have b: "map (\<lambda>route. (verb route, pathRule route, headerMatchers route))
         (routes (Handler_router ipv4_packages bareServer)) =
       [(''GET'', Exact ''/'', [(''Accept'', ''application/json'')]),
        (''GET'', Exact ''/json'', []),
        (''GET'', Exact ''/'', []),
        (''GET'', Exact ''/'', [(''Accept'', ''text/plain'')]),
        (''GET'', Exact ''/ip'', []),
        (''GET'', Exact ''/'', [])]"
    by simp
  from a b show ?thesis by blast
qed

section \<open>Command-line clients\<close>

text \<open>
  Claim C10. \<open>cliMatcher\<close> holds exactly when the product that \<open>useragent.Parse\<close> reads
  from the request's \<open>User-Agent\<close> header is one of \<open>curl\<close>, \<open>HTTPie\<close>, \<open>Wget\<close>,
  \<open>fetch libfetch\<close>, \<open>Go\<close>, \<open>Go-http-client\<close> and \<open>ddclient\<close>; two requests with the
  same \<open>User-Agent\<close> value get the same answer.
\<close>

theorem cliMatcher_allow_list:
  "(cliMatcher pk r \<longleftrightarrow>
      Product (useragent_Parse pk (Header_Get (Header r) ''User-Agent''))
        \<in> {''curl'', ''HTTPie'', ''Wget'', ''fetch libfetch'', ''Go'', ''Go-http-client'',
            ''ddclient''})
   \<and> (Header_Get (Header r') ''User-Agent'' = Header_Get (Header r) ''User-Agent'' \<longrightarrow>
        cliMatcher pk r' = cliMatcher pk r)"
  by (simp add: cliMatcher_def Request_UserAgent_def Let_def)

text \<open>The client \<open>curl\<close>, a browser, and \<open>curl\<close> again on another path and address.\<close>

theorem cliMatcher_allow_list_witness:
  "cliMatcher ipv4_packages (getRequest ''/'' [(''User-Agent'', ''curl/7.43.0'')] ''192.0.2.1:4711'')
   \<and> \<not> cliMatcher ipv4_packages
          (getRequest ''/'' [(''User-Agent'', ''Mozilla/5.0 (X11; Linux x86_64)'')]
             ''192.0.2.1:4711'')
   \<and> cliMatcher ipv4_packages
         (getRequest ''/ip'' [(''User-Agent'', ''curl/7.43.0''), (''Accept'', ''text/html'')]
            ''198.51.100.7:80'')"
proof -
  let ?r1 = "getRequest ''/'' [(''User-Agent'', ''curl/7.43.0'')] ''192.0.2.1:4711''"
  let ?r2 = "getRequest ''/'' [(''User-Agent'', ''Mozilla/5.0 (X11; Linux x86_64)'')]
               ''192.0.2.1:4711''"
  let ?r3 = "getRequest ''/ip'' [(''User-Agent'', ''curl/7.43.0''), (''Accept'', ''text/html'')]
               ''198.51.100.7:80''"
  have ua: "Header_Get (Header ?r1) ''User-Agent'' = ''curl/7.43.0''"
    "Header_Get (Header ?r2) ''User-Agent'' = ''Mozilla/5.0 (X11; Linux x86_64)''"
    "Header_Get (Header ?r3) ''User-Agent'' = ''curl/7.43.0''"
    by (simp_all add: getRequest_def stdlib_defs)
  have p: "Product (useragent_Parse ipv4_packages ''curl/7.43.0'') = ''curl''"
    "Product (useragent_Parse ipv4_packages ''Mozilla/5.0 (X11; Linux x86_64)'') = ''Mozilla''"
    by (simp_all add: ipv4_packages_def Parse_def Let_def)
  from cliMatcher_allow_list [of ipv4_packages ?r1] ua p
  have a: "cliMatcher ipv4_packages ?r1" by simp
  from cliMatcher_allow_list [of ipv4_packages ?r2] ua p
  have b: "\<not> cliMatcher ipv4_packages ?r2" by simp
  from cliMatcher_allow_list [of ipv4_packages ?r1 ?r3] ua a
  have c: "cliMatcher ipv4_packages ?r3" by simp
  from a b c show ?thesis by blast
qed


section \<open>Every request is answered\<close>

lemma handlers_return:
  "\<exists>w' e. CLIHandler pk s w r = Inr (w', e)"
  "\<exists>w' e. CLICountryHandler pk s w r = Inr (w', e)"
  "\<exists>w' e. CLICountryISOHandler pk s w r = Inr (w', e)"
  "\<exists>w' e. CLICityHandler pk s w r = Inr (w', e)"
  "\<exists>w' e. JSONHandler pk s w r = Inr (w', e)"
  "\<exists>w' e. DefaultHandler pk s w r = Inr (w', e)"
  "\<exists>w' e. NotFoundHandler w r = Inr (w', e)"
  by (auto simp add: CLIHandler_def CLICountryHandler_def CLICountryISOHandler_def
      CLICityHandler_def JSONHandler_def DefaultHandler_def NotFoundHandler_def Let_def
      split: sum.splits option.splits prod.splits)

lemma PortHandler_returns:
  "LookupPort s \<noteq> None \<Longrightarrow> \<exists>w' e. PortHandler pk s w r = Inr (w', e)"
  by (auto simp add: PortHandler_def newPortResponse_def Let_def
      split: sum.splits option.splits prod.splits)

lemma ServeHTTP_returns: "fn w r = Inr (w', e) \<Longrightarrow> \<exists>w''. ServeHTTP fn w r = Inr w''"
  by (auto simp add: ServeHTTP_def json_Marshal_errorDoc_def split: option.splits)

lemma dispatch_returns_if:
  assumes "\<forall>route \<in> set (routes rt). \<exists>w' e. handler route w r = Inr (w', e)"
  shows "\<exists>w' e. dispatch rt w r = Inr (w', e)"
proof (cases "find (\<lambda>route. matches route r) (routes rt)")
  case None
  then show ?thesis by (simp add: dispatch_def handlers_return)
next
  case (Some route)
  then have "route \<in> set (routes rt)" by (auto simp add: find_Some_iff)
  with assms Some show ?thesis by (simp add: dispatch_def)
qed

lemma Handler_router_handlers_return:
  "\<forall>route \<in> set (routes (Handler_router pk s)). \<exists>w' e. handler route w r = Inr (w', e)"
proof (cases "LookupPort s = None")
  case True
  then show ?thesis
    by (simp add: router_defs handlers_return)
next
  case False
  then have "\<exists>w' e. PortHandler pk s w r = Inr (w', e)" by (rule PortHandler_returns)
  with False show ?thesis
    by (simp add: router_defs handlers_return)
qed

text \<open>
  Every request to the server's handler is answered: no route leads to the panic of
  \<open>newPortResponse\<close>, since the port route exists only with a port probe.
\<close>

lemma Handler_returns: "\<exists>w'. Handler pk s w r = Inr w'"
proof -
  from dispatch_returns_if [OF Handler_router_handlers_return]
  obtain w' e where "dispatch (Handler_router pk s) w r = Inr (w', e)" by blast
  then show ?thesis
    unfolding Handler_def Router_Handler_def by (rule ServeHTTP_returns)
qed

end
